theory Spec2Isabelle
  imports Main "HOL-Library.Word"
begin

section \<open>Bytes, hashes and the blobs bundle (helper/blobs.go)\<close>

type_synonym byte = "8 word"

text \<open>
  \<open>common.Hash\<close> is \<open>[32]byte\<close> and \<open>common.Address\<close> is \<open>[20]byte\<close> in go-ethereum.
  Both are kept as byte lists; the length 32 of a hash is what \<open>BytesToHash\<close> establishes.
\<close>

type_synonym common_Hash = "byte list"
type_synonym common_Address = "byte list"

definition HashLength :: nat where
  "HashLength = 32"

text \<open>
  go-ethereum's \<open>common.BytesToHash\<close> (\<open>Hash.SetBytes\<close>): an input longer than the hash is
  cropped from the left, \<open>b = b[len(b)-HashLength:]\<close>, and then copied right-aligned into
  the zeroed array, \<open>copy(h[HashLength-len(b):], b)\<close>.
\<close>

definition BytesToHash :: "byte list \<Rightarrow> common_Hash" where
  "BytesToHash b =
     (let b' = (if length b > HashLength then drop (length b - HashLength) b else b)
      in replicate (HashLength - length b') 0 @ b')"

text \<open>
  \<open>api.BlobsBundle\<close>: three slices, each of which may be nil (\<open>None\<close>).
\<close>

record BlobsBundle =
  Commitments :: "byte list list option"
  Blobs :: "byte list list option"
  Proofs :: "byte list list option"

text \<open>
  The body of the \<open>for i, commitment := range bb.Commitments\<close> loop, run over the
  (index, commitment) pairs in order. \<open>sha256\<close> stands for \<open>crypto/sha256.Sum256\<close>, which
  is taken as a parameter; \<open>sha256Hash[1:]\<close> is \<open>drop 1\<close>, and \<open>append([]byte{v}, ...)\<close>
  is the cons.
\<close>

fun versionedHashes_loop ::
  "(byte list \<Rightarrow> byte list) \<Rightarrow> byte \<Rightarrow> (nat \<times> byte list) list \<Rightarrow> common_Hash list
     \<Rightarrow> common_Hash list" where
  "versionedHashes_loop sha256 commitmentVersion [] versionedHashes = versionedHashes"
| "versionedHashes_loop sha256 commitmentVersion ((i, commitment) # rest) versionedHashes =
     (let sha256Hash = sha256 commitment
      in versionedHashes_loop sha256 commitmentVersion rest
           (versionedHashes[i := BytesToHash (commitmentVersion # drop 1 sha256Hash)]))"

text \<open>
  \<open>VersionedHashesFromBlobBundle(bb, commitmentVersion)\<close>. The pointer \<open>bb\<close> is an option;
  the two \<open>errors.New\<close> results are \<open>Inl\<close> of the message. \<open>make([]common.Hash, n)\<close> is
  \<open>n\<close> zero hashes.
\<close>

definition VersionedHashesFromBlobBundle ::
  "(byte list \<Rightarrow> byte list) \<Rightarrow> BlobsBundle option \<Rightarrow> byte \<Rightarrow> string + common_Hash list" where
  "VersionedHashesFromBlobBundle sha256 bb commitmentVersion =
     (case bb of
        None \<Rightarrow> Inl ''nil blob bundle''
      | Some b \<Rightarrow>
          (case Commitments b of
             None \<Rightarrow> Inl ''nil commitments''
           | Some cs \<Rightarrow>
               Inr (versionedHashes_loop sha256 commitmentVersion (enumerate 0 cs)
                      (replicate (length cs) (replicate HashLength 0)))))"

section \<open>Transactions and the test pool (suites/blobs/helpers.go)\<close>

text \<open>
  \<open>types.AccessTuple\<close>; \<open>StorageKeys\<close> is a slice, and \<open>reflect.DeepEqual\<close> tells a nil
  slice from an empty one, so it is an option.
\<close>

record AccessTuple =
  Address :: common_Address
  StorageKeys :: "common_Hash list option"

text \<open>
  \<open>e_typ.Transaction\<close> is an interface; a value of it is modelled by what its methods
  return. \<open>uint64\<close> results are 64-bit words, \<open>Type()\<close> is a \<open>uint8\<close>. Every pointer
  and slice result is an option, nil being \<open>None\<close>: the destination, the three slices,
  and the six \<open>*big.Int\<close> results (go-ethereum's \<open>BlobGasFeeCap()\<close> is nil for a
  transaction that is not a blob transaction).
\<close>

record Transaction =
  Hash :: common_Hash
  Nonce :: "64 word"
  Gas :: "64 word"
  GasPrice :: "int option"
  Value :: "int option"
  To :: "common_Address option"
  Data :: "byte list option"
  AccessList :: "AccessTuple list option"
  ChainId :: "int option"
  BlobGas :: "64 word"
  GasFeeCap :: "int option"
  GasTipCap :: "int option"
  BlobGasFeeCap :: "int option"
  BlobHashes :: "common_Hash list option"
  Type :: "8 word"

record TestBlobTxPool =
  Transactions :: "(common_Hash \<rightharpoonup> Transaction) option"

text \<open>
  Go's run-time panics that this code can meet. Of the map statements, storing into a nil
  map panics and reading a nil map finds nothing.
\<close>

datatype panic = AssignmentToEntryInNilMap | NilPointerDereference

definition map_store :: "('k \<rightharpoonup> 'v) option \<Rightarrow> 'k \<Rightarrow> 'v \<Rightarrow> panic + ('k \<rightharpoonup> 'v) option" where
  "map_store m k v =
     (case m of None \<Rightarrow> Inl AssignmentToEntryInNilMap | Some f \<Rightarrow> Inr (Some (f(k \<mapsto> v))))"

definition map_load :: "('k \<rightharpoonup> 'v) option \<Rightarrow> 'k \<Rightarrow> 'v option" where
  "map_load m k = (case m of None \<Rightarrow> None | Some f \<Rightarrow> f k)"

definition AddBlobTransaction :: "TestBlobTxPool \<Rightarrow> Transaction \<Rightarrow> panic + TestBlobTxPool" where
  "AddBlobTransaction pool tx =
     (let pool1 = (if Transactions pool = None
                   then pool\<lparr>Transactions := Some Map.empty\<rparr> else pool)
      in case map_store (Transactions pool1) (Hash tx) tx of
           Inl p \<Rightarrow> Inl p
         | Inr m \<Rightarrow> Inr (pool1\<lparr>Transactions := m\<rparr>))"

subsection \<open>VerifyTransactionFromNode\<close>

text \<open>
  An error built by \<open>fmt.Errorf\<close> is kept as its format string and its arguments, in
  order; an error handed back by the client is \<open>ClientError\<close>.
\<close>

datatype fmt_arg =
    ArgUint64 "64 word"
  | ArgUint8 "8 word"
  | ArgBigInt "int option"
  | ArgString string
  | ArgAccessList "AccessTuple list"
  | ArgHashes "common_Hash list"

datatype error = Errorf string "fmt_arg list" | ClientError string

text \<open>\<open>encoding/hex.EncodeToString\<close>: two lower-case hex digits per byte.\<close>

definition hextable :: string where
  "hextable = ''0123456789abcdef''"

definition EncodeToString :: "byte list \<Rightarrow> string" where
  "EncodeToString src =
     concat (map (\<lambda>v. [hextable ! (unat v div 16), hextable ! (unat v mod 16)]) src)"

text \<open>
  \<open>math/big\<close>'s \<open>(x *Int) Cmp(y *Int)\<close>: its first case is \<open>x == y\<close>, which two nil
  pointers meet, and gives 0; every other case reads \<open>x.neg\<close> and \<open>y.neg\<close>, so with
  exactly one nil pointer the call panics. On two numbers the result is -1, 0 or 1.
\<close>

definition Cmp :: "int option \<Rightarrow> int option \<Rightarrow> panic + int" where
  "Cmp x y =
     (case x of
        None \<Rightarrow> (case y of None \<Rightarrow> Inr 0 | Some b \<Rightarrow> Inl NilPointerDereference)
      | Some a \<Rightarrow>
          (case y of
             None \<Rightarrow> Inl NilPointerDereference
           | Some b \<Rightarrow> Inr (if a < b then - 1 else if a = b then 0 else 1)))"

text \<open>
  The comparisons of \<open>VerifyTransactionFromNode\<close> after the transaction has been fetched,
  in the order of the source. The result is \<open>Inl\<close> of a panic, or \<open>Inr\<close> of the error
  returned, \<open>None\<close> being nil. \<open>Hex\<close> is \<open>common.Address.Hex\<close> (the checksummed hex form
  of an address), a parameter. The six big-integer comparisons go through \<open>Cmp\<close> with no
  nil test before them, as in the source. \<open>bytes.Equal\<close> and \<open>reflect.DeepEqual\<close> on two
  non-nil values of these types are equality; \<open>the\<close> is only reached behind the two nil
  tests.
\<close>

definition verifyFields ::
  "(common_Address \<Rightarrow> string) \<Rightarrow> Transaction \<Rightarrow> Transaction \<Rightarrow> panic + error option" where
  "verifyFields Hex returnedTx tx =
    (if Nonce returnedTx \<noteq> Nonce tx then
       Inr (Some (Errorf ''nonce mismatch: %d != %d''
                    [ArgUint64 (Nonce returnedTx), ArgUint64 (Nonce tx)]))
     else if Gas returnedTx \<noteq> Gas tx then
       Inr (Some (Errorf ''gas mismatch: %d != %d''
                    [ArgUint64 (Gas returnedTx), ArgUint64 (Gas tx)]))
     else case Cmp (GasPrice returnedTx) (GasPrice tx) of Inl p \<Rightarrow> Inl p | Inr c1 \<Rightarrow>
     if c1 \<noteq> 0 then
       Inr (Some (Errorf ''gas price mismatch: %d != %d''
                    [ArgBigInt (GasPrice returnedTx), ArgBigInt (GasPrice tx)]))
     else case Cmp (Value returnedTx) (Value tx) of Inl p \<Rightarrow> Inl p | Inr c2 \<Rightarrow>
     if c2 \<noteq> 0 then
       Inr (Some (Errorf ''value mismatch: %d != %d''
                    [ArgBigInt (Value returnedTx), ArgBigInt (Value tx)]))
     else if To returnedTx \<noteq> None \<and> To tx \<noteq> None
             \<and> Hex (the (To returnedTx)) \<noteq> Hex (the (To tx)) then
       Inr (Some (Errorf ''to mismatch: %s != %s''
                    [ArgString (Hex (the (To returnedTx))), ArgString (Hex (the (To tx)))]))
     else if Data returnedTx \<noteq> None \<and> Data tx \<noteq> None
             \<and> the (Data returnedTx) \<noteq> the (Data tx) then
       Inr (Some (Errorf ''data mismatch: %s != %s''
                    [ArgString (EncodeToString (the (Data returnedTx))),
                     ArgString (EncodeToString (the (Data tx)))]))
     else if AccessList returnedTx \<noteq> None \<and> AccessList tx \<noteq> None
             \<and> the (AccessList returnedTx) \<noteq> the (AccessList tx) then
       Inr (Some (Errorf ''access list mismatch: %v != %v''
                    [ArgAccessList (the (AccessList returnedTx)),
                     ArgAccessList (the (AccessList tx))]))
     else case Cmp (ChainId returnedTx) (ChainId tx) of Inl p \<Rightarrow> Inl p | Inr c3 \<Rightarrow>
     if c3 \<noteq> 0 then
       Inr (Some (Errorf ''chain id mismatch: %d != %d''
                    [ArgBigInt (ChainId returnedTx), ArgBigInt (ChainId tx)]))
     else if BlobGas returnedTx \<noteq> BlobGas tx then
       Inr (Some (Errorf ''data gas mismatch: %d != %d''
                    [ArgUint64 (BlobGas returnedTx), ArgUint64 (BlobGas tx)]))
     else case Cmp (GasFeeCap returnedTx) (GasFeeCap tx) of Inl p \<Rightarrow> Inl p | Inr c4 \<Rightarrow>
     if c4 \<noteq> 0 then
       Inr (Some (Errorf ''max fee per gas mismatch: %d != %d''
                    [ArgBigInt (GasFeeCap returnedTx), ArgBigInt (GasFeeCap tx)]))
     else case Cmp (GasTipCap returnedTx) (GasTipCap tx) of Inl p \<Rightarrow> Inl p | Inr c5 \<Rightarrow>
     if c5 \<noteq> 0 then
       Inr (Some (Errorf ''max priority fee per gas mismatch: %d != %d''
                    [ArgBigInt (GasTipCap returnedTx), ArgBigInt (GasTipCap tx)]))
     else case Cmp (BlobGasFeeCap returnedTx) (BlobGasFeeCap tx) of Inl p \<Rightarrow> Inl p | Inr c6 \<Rightarrow>
     if c6 \<noteq> 0 then
       Inr (Some (Errorf ''max fee per data gas mismatch: %d != %d''
                    [ArgBigInt (BlobGasFeeCap returnedTx), ArgBigInt (BlobGasFeeCap tx)]))
     else if BlobHashes returnedTx \<noteq> None \<and> BlobHashes tx \<noteq> None
             \<and> the (BlobHashes returnedTx) \<noteq> the (BlobHashes tx) then
       Inr (Some (Errorf ''blob versioned hashes mismatch: %v != %v''
                    [ArgHashes (the (BlobHashes returnedTx)), ArgHashes (the (BlobHashes tx))]))
     else if Type returnedTx \<noteq> Type tx then
       Inr (Some (Errorf ''type mismatch: %d != %d''
                    [ArgUint8 (Type returnedTx), ArgUint8 (Type tx)]))
     else Inr None)"

text \<open>
  The whole function: \<open>TransactionByHash\<close> is the \<open>client.Eth\<close> call (its context
  argument and its pending flag play no part); its error is returned as it is.
\<close>

definition VerifyTransactionFromNode ::
  "(common_Address \<Rightarrow> string) \<Rightarrow> (common_Hash \<Rightarrow> error + Transaction) \<Rightarrow> Transaction
     \<Rightarrow> panic + error option" where
  "VerifyTransactionFromNode Hex TransactionByHash tx =
     (case TransactionByHash (Hash tx) of
        Inl err \<Rightarrow> Inr (Some err)
      | Inr returnedTx \<Rightarrow> verifyFields Hex returnedTx tx)"

subsection \<open>The contract of the verifier, field by field\<close>









text \<open>A transaction and an address rendering used to instantiate the statements below.\<close>

definition example_tx :: Transaction where
  "example_tx =
     \<lparr>Hash = replicate 32 7, Nonce = 4, Gas = 21000, GasPrice = Some 10, Value = Some 0,
      To = Some (replicate 20 1), Data = Some [1, 2], AccessList = Some [],
      ChainId = Some 7, BlobGas = 131072, GasFeeCap = Some 10, GasTipCap = Some 1,
      BlobGasFeeCap = Some 1, BlobHashes = Some [1 # replicate 31 0], Type = 3\<rparr>"

definition example_Hex :: "common_Address \<Rightarrow> string" where
  "example_Hex a = map (\<lambda>b. char_of (unat b)) a"

section \<open>The blob test suite (suites/blobs: the test table and its execution)\<close>

subsection \<open>Constants\<close>

definition DATAHASH_START_ADDRESS :: int where
  "DATAHASH_START_ADDRESS = 0x100"

definition DATAHASH_ADDRESS_COUNT :: int where
  "DATAHASH_ADDRESS_COUNT = 1000"

definition DATA_GAS_PER_BLOB :: "64 word" where
  "DATA_GAS_PER_BLOB = 0x20000"

definition MIN_DATA_GASPRICE :: "64 word" where
  "MIN_DATA_GASPRICE = 1"

definition MAX_DATA_GAS_PER_BLOCK :: "64 word" where
  "MAX_DATA_GAS_PER_BLOCK = 786432"

definition TARGET_DATA_GAS_PER_BLOCK :: "64 word" where
  "TARGET_DATA_GAS_PER_BLOCK = 393216"

definition TARGET_BLOBS_PER_BLOCK :: "64 word" where
  "TARGET_BLOBS_PER_BLOCK = TARGET_DATA_GAS_PER_BLOCK div DATA_GAS_PER_BLOB"

definition MAX_BLOBS_PER_BLOCK :: "64 word" where
  "MAX_BLOBS_PER_BLOCK = MAX_DATA_GAS_PER_BLOCK div DATA_GAS_PER_BLOB"

definition DATA_GASPRICE_UPDATE_FRACTION :: "64 word" where
  "DATA_GASPRICE_UPDATE_FRACTION = 3338477"

definition BLOB_COMMITMENT_VERSION_KZG :: byte where
  "BLOB_COMMITMENT_VERSION_KZG = 0x01"

text \<open>
  \<open>GetMinExcessDataBlobsForDataGasPrice\<close> is not among the sources and the specification
  does not give its algorithm: it is a parameter of everything that depends on it.
\<close>

definition DATA_GAS_COST_INCREMENT_EXCEED_BLOBS :: "(64 word \<Rightarrow> 64 word) \<Rightarrow> 64 word" where
  "DATA_GAS_COST_INCREMENT_EXCEED_BLOBS GetMinExcessDataBlobsForDataGasPrice =
     GetMinExcessDataBlobsForDataGasPrice 2"

definition pUint64 :: "64 word \<Rightarrow> 64 word option" where
  "pUint64 v = Some v"

subsection \<open>Test steps\<close>

text \<open>
  Modelled from the spec: the declarations of \<open>helper.BlobID\<close>, \<open>VersionedHashes\<close>,
  \<open>helper.CustomPayloadData\<close>, \<open>test.PayloadStatus\<close>, \<open>test.Spec\<close> and of the four step
  kinds are not among the sources. A BlobID is a small non-negative integer
  (specification, section 3); each struct has the fields that the literals of the table
  set, with the types of the values put there (\<open>uint64\<close> as a 64-bit word, \<open>*big.Int\<close>,
  pointers and slices as options, nil being \<open>None\<close>); the statuses are those of
  section 6. The free text \<open>About\<close> of a \<open>test.Spec\<close> is left out.
\<close>

type_synonym BlobID = nat

record VersionedHashes =
  Blobs :: "BlobID list option"
  HashVersions :: "byte list option"

record CustomPayloadData =
  DataGasUsed :: "64 word option"

datatype PayloadStatus = Valid | Invalid | Accepted | Syncing

datatype EngineStarter = HiveRPCEngineStarter

record SendBlobTransactions =
  BlobTransactionSendCount :: "64 word"
  BlobsPerTransaction :: "64 word"
  BlobTransactionMaxDataGasCost :: "int option"
  BlobTransactionGasFeeCap :: "int option"
  BlobTransactionGasTipCap :: "int option"
  ReplaceTransactions :: bool
  AccountIndex :: "64 word"
  ClientIndex :: "64 word"

record NewPayloads =
  PayloadCount :: "64 word"
  ExpectedIncludedBlobCount :: "64 word"
  ExpectedBlobs :: "BlobID list option"
  GetPayloadDelay :: "64 word"
  VersionedHashes :: "VersionedHashes option"
  PayloadCustomizer :: "CustomPayloadData option"

record LaunchClients =
  EngineStarter :: EngineStarter
  SkipAddingToCLMock :: bool
  SkipConnectingToBootnode :: bool

record SendModifiedLatestPayload =
  ClientID :: "64 word"
  VersionedHashes :: "VersionedHashes option"
  ExpectedStatus :: PayloadStatus

datatype TestStep =
    StepSendBlobTransactions SendBlobTransactions
  | StepNewPayloads NewPayloads
  | StepLaunchClients LaunchClients
  | StepSendModifiedLatestPayload SendModifiedLatestPayload

record Spec =
  Name :: string

record BlobsBaseSpec =
  Spec :: Spec
  TimeIncrements :: "64 word"
  GetPayloadDelay :: "64 word"
  BlobsForkHeight :: "64 word"
  BlobTestSequence :: "TestStep list"

text \<open>
  Go's zero values: a field that a composite literal leaves out is 0, false or nil. The
  table below writes each literal as the zero value with the named fields set.
\<close>

definition zero_VersionedHashes :: VersionedHashes where
  "zero_VersionedHashes = \<lparr>Blobs = None, HashVersions = None\<rparr>"

definition zero_CustomPayloadData :: CustomPayloadData where
  "zero_CustomPayloadData = \<lparr>DataGasUsed = None\<rparr>"

definition zero_SendBlobTransactions :: SendBlobTransactions where
  "zero_SendBlobTransactions =
     \<lparr>BlobTransactionSendCount = 0, BlobsPerTransaction = 0,
      BlobTransactionMaxDataGasCost = None, BlobTransactionGasFeeCap = None,
      BlobTransactionGasTipCap = None, ReplaceTransactions = False,
      AccountIndex = 0, ClientIndex = 0\<rparr>"

definition zero_NewPayloads :: NewPayloads where
  "zero_NewPayloads =
     \<lparr>PayloadCount = 0, ExpectedIncludedBlobCount = 0, ExpectedBlobs = None,
      NewPayloads.GetPayloadDelay = 0, NewPayloads.VersionedHashes = None,
      PayloadCustomizer = None\<rparr>"

definition zero_BlobsBaseSpec :: BlobsBaseSpec where
  "zero_BlobsBaseSpec =
     \<lparr>Spec = \<lparr>Name = []\<rparr>, TimeIncrements = 0, GetPayloadDelay = 0, BlobsForkHeight = 0,
      BlobTestSequence = []\<rparr>"

subsection \<open>The test table\<close>

text \<open>
  \<open>var Tests\<close>, entry by entry. \<open>helper.GetBlobList\<close> is not among the sources and is a
  parameter, like \<open>GetMinExcessDataBlobsForDataGasPrice\<close>.
\<close>

definition Tests ::
  "(64 word \<Rightarrow> 64 word) \<Rightarrow> (BlobID \<Rightarrow> 64 word \<Rightarrow> BlobID list option)
     \<Rightarrow> BlobsBaseSpec list" where
  "Tests GetMinExcessDataBlobsForDataGasPrice GetBlobList =
  [zero_BlobsBaseSpec
    \<lparr>Spec := \<lparr>Name = ''Blob Transactions On Block 1, Cancun Genesis''\<rparr>,
     BlobsForkHeight := 0,
     BlobTestSequence :=
        [StepSendBlobTransactions
          (zero_SendBlobTransactions
            \<lparr>BlobTransactionSendCount := TARGET_BLOBS_PER_BLOCK,
              BlobTransactionMaxDataGasCost := Some 1\<rparr>),
         StepNewPayloads
          (zero_NewPayloads
            \<lparr>ExpectedIncludedBlobCount := TARGET_BLOBS_PER_BLOCK,
              ExpectedBlobs := GetBlobList 0 TARGET_BLOBS_PER_BLOCK\<rparr>),
         StepSendBlobTransactions
          (zero_SendBlobTransactions
            \<lparr>BlobTransactionSendCount :=
                  DATA_GAS_COST_INCREMENT_EXCEED_BLOBS GetMinExcessDataBlobsForDataGasPrice
                    div (MAX_BLOBS_PER_BLOCK - TARGET_BLOBS_PER_BLOCK) + 1,
              BlobsPerTransaction := MAX_BLOBS_PER_BLOCK,
              BlobTransactionMaxDataGasCost := Some 1\<rparr>),
         StepNewPayloads
          (zero_NewPayloads
            \<lparr>PayloadCount :=
                  DATA_GAS_COST_INCREMENT_EXCEED_BLOBS GetMinExcessDataBlobsForDataGasPrice
                    div (MAX_BLOBS_PER_BLOCK - TARGET_BLOBS_PER_BLOCK),
              ExpectedIncludedBlobCount := MAX_BLOBS_PER_BLOCK\<rparr>),
         StepNewPayloads
          (zero_NewPayloads
            \<lparr>ExpectedIncludedBlobCount := 0\<rparr>),
         StepNewPayloads
          (zero_NewPayloads
            \<lparr>ExpectedIncludedBlobCount := MAX_BLOBS_PER_BLOCK\<rparr>)]\<rparr>,

   zero_BlobsBaseSpec
    \<lparr>Spec := \<lparr>Name = ''Blob Transaction Ordering, Single Account''\<rparr>,
     BlobsForkHeight := 0,
     BlobTestSequence :=
        [StepSendBlobTransactions
          (zero_SendBlobTransactions
            \<lparr>BlobTransactionSendCount := 5,
              BlobsPerTransaction := MAX_BLOBS_PER_BLOCK - 1,
              BlobTransactionMaxDataGasCost := Some 100\<rparr>),
         StepSendBlobTransactions
          (zero_SendBlobTransactions
            \<lparr>BlobTransactionSendCount := 5,
              BlobsPerTransaction := 1,
              BlobTransactionMaxDataGasCost := Some 100\<rparr>),
         StepNewPayloads
          (zero_NewPayloads
            \<lparr>PayloadCount := 4,
              ExpectedIncludedBlobCount := MAX_BLOBS_PER_BLOCK - 1\<rparr>),
         StepNewPayloads
          (zero_NewPayloads
            \<lparr>PayloadCount := 2,
              ExpectedIncludedBlobCount := MAX_BLOBS_PER_BLOCK\<rparr>)]\<rparr>,

   zero_BlobsBaseSpec
    \<lparr>Spec := \<lparr>Name = ''Blob Transaction Ordering, Multiple Accounts''\<rparr>,
     BlobsForkHeight := 0,
     BlobTestSequence :=
        [StepSendBlobTransactions
          (zero_SendBlobTransactions
            \<lparr>BlobTransactionSendCount := 5,
              BlobsPerTransaction := MAX_BLOBS_PER_BLOCK - 1,
              BlobTransactionMaxDataGasCost := Some 100,
              AccountIndex := 0\<rparr>),
         StepSendBlobTransactions
          (zero_SendBlobTransactions
            \<lparr>BlobTransactionSendCount := 5,
              BlobsPerTransaction := 1,
              BlobTransactionMaxDataGasCost := Some 100,
              AccountIndex := 1\<rparr>),
         StepNewPayloads
          (zero_NewPayloads
            \<lparr>PayloadCount := 5,
              ExpectedIncludedBlobCount := MAX_BLOBS_PER_BLOCK\<rparr>)]\<rparr>,

   zero_BlobsBaseSpec
    \<lparr>Spec := \<lparr>Name = ''Blob Transaction Ordering, Multiple Clients''\<rparr>,
     BlobsForkHeight := 0,
     BlobTestSequence :=
        [StepLaunchClients
          \<lparr>EngineStarter = HiveRPCEngineStarter,
            SkipAddingToCLMock = True,
            SkipConnectingToBootnode = False\<rparr>,
         StepNewPayloads
          (zero_NewPayloads
            \<lparr>PayloadCount := 1,
              ExpectedIncludedBlobCount := 0\<rparr>),
         StepSendBlobTransactions
          (zero_SendBlobTransactions
            \<lparr>BlobTransactionSendCount := 5,
              BlobsPerTransaction := MAX_BLOBS_PER_BLOCK - 1,
              BlobTransactionMaxDataGasCost := Some 100,
              AccountIndex := 0,
              ClientIndex := 0\<rparr>),
         StepSendBlobTransactions
          (zero_SendBlobTransactions
            \<lparr>BlobTransactionSendCount := 5,
              BlobsPerTransaction := 1,
              BlobTransactionMaxDataGasCost := Some 100,
              AccountIndex := 1,
              ClientIndex := 1\<rparr>),
         StepNewPayloads
          (zero_NewPayloads
            \<lparr>PayloadCount := 5,
              ExpectedIncludedBlobCount := MAX_BLOBS_PER_BLOCK,
              NewPayloads.GetPayloadDelay := 2\<rparr>)]\<rparr>,

   zero_BlobsBaseSpec
    \<lparr>Spec := \<lparr>Name = ''Replace Blob Transactions''\<rparr>,
     BlobsForkHeight := 0,
     BlobTestSequence :=
        [StepSendBlobTransactions
          (zero_SendBlobTransactions
            \<lparr>BlobTransactionSendCount := 1,
              BlobTransactionMaxDataGasCost := Some 1,
              BlobTransactionGasFeeCap := Some 1000000000,
              BlobTransactionGasTipCap := Some 1000000000\<rparr>),
         StepSendBlobTransactions
          (zero_SendBlobTransactions
            \<lparr>BlobTransactionSendCount := 1,
              BlobTransactionMaxDataGasCost := Some 1,
              BlobTransactionGasFeeCap := Some 10000000000,
              BlobTransactionGasTipCap := Some 10000000000,
              ReplaceTransactions := True\<rparr>),
         StepSendBlobTransactions
          (zero_SendBlobTransactions
            \<lparr>BlobTransactionSendCount := 1,
              BlobTransactionMaxDataGasCost := Some 1,
              BlobTransactionGasFeeCap := Some 100000000000,
              BlobTransactionGasTipCap := Some 100000000000,
              ReplaceTransactions := True\<rparr>),
         StepSendBlobTransactions
          (zero_SendBlobTransactions
            \<lparr>BlobTransactionSendCount := 1,
              BlobTransactionMaxDataGasCost := Some 1,
              BlobTransactionGasFeeCap := Some 1000000000000,
              BlobTransactionGasTipCap := Some 1000000000000,
              ReplaceTransactions := True\<rparr>),
         StepNewPayloads
          (zero_NewPayloads
            \<lparr>ExpectedIncludedBlobCount := 1,
              ExpectedBlobs := Some [3]\<rparr>)]\<rparr>,

   zero_BlobsBaseSpec
    \<lparr>Spec := \<lparr>Name = ''NewPayloadV3 Versioned Hashes, Missing Hash''\<rparr>,
     BlobTestSequence :=
        [StepSendBlobTransactions
          (zero_SendBlobTransactions
            \<lparr>BlobTransactionSendCount := TARGET_BLOBS_PER_BLOCK,
              BlobTransactionMaxDataGasCost := Some 1\<rparr>),
         StepNewPayloads
          (zero_NewPayloads
            \<lparr>ExpectedIncludedBlobCount := 2,
              ExpectedBlobs := Some [0, 1],
              NewPayloads.VersionedHashes :=
                  Some (zero_VersionedHashes\<lparr>Blobs := Some [0]\<rparr>)\<rparr>)]\<rparr>,

   zero_BlobsBaseSpec
    \<lparr>Spec := \<lparr>Name = ''NewPayloadV3 Versioned Hashes, Extra Hash''\<rparr>,
     BlobTestSequence :=
        [StepSendBlobTransactions
          (zero_SendBlobTransactions
            \<lparr>BlobTransactionSendCount := TARGET_BLOBS_PER_BLOCK,
              BlobTransactionMaxDataGasCost := Some 1\<rparr>),
         StepNewPayloads
          (zero_NewPayloads
            \<lparr>ExpectedIncludedBlobCount := 2,
              ExpectedBlobs := Some [0, 1],
              NewPayloads.VersionedHashes :=
                  Some (zero_VersionedHashes\<lparr>Blobs := Some [0, 1, 2]\<rparr>)\<rparr>)]\<rparr>,

   zero_BlobsBaseSpec
    \<lparr>Spec := \<lparr>Name = ''NewPayloadV3 Versioned Hashes, Out of Order''\<rparr>,
     BlobTestSequence :=
        [StepSendBlobTransactions
          (zero_SendBlobTransactions
            \<lparr>BlobTransactionSendCount := TARGET_BLOBS_PER_BLOCK,
              BlobTransactionMaxDataGasCost := Some 1\<rparr>),
         StepNewPayloads
          (zero_NewPayloads
            \<lparr>ExpectedIncludedBlobCount := 2,
              ExpectedBlobs := Some [0, 1],
              NewPayloads.VersionedHashes :=
                  Some (zero_VersionedHashes\<lparr>Blobs := Some [1, 0]\<rparr>)\<rparr>)]\<rparr>,

   zero_BlobsBaseSpec
    \<lparr>Spec := \<lparr>Name = ''NewPayloadV3 Versioned Hashes, Repeated Hash''\<rparr>,
     BlobTestSequence :=
        [StepSendBlobTransactions
          (zero_SendBlobTransactions
            \<lparr>BlobTransactionSendCount := TARGET_BLOBS_PER_BLOCK,
              BlobTransactionMaxDataGasCost := Some 1\<rparr>),
         StepNewPayloads
          (zero_NewPayloads
            \<lparr>ExpectedIncludedBlobCount := 2,
              ExpectedBlobs := Some [0, 1],
              NewPayloads.VersionedHashes :=
                  Some (zero_VersionedHashes\<lparr>Blobs := Some [0, 1, 1]\<rparr>)\<rparr>)]\<rparr>,

   zero_BlobsBaseSpec
    \<lparr>Spec := \<lparr>Name = ''NewPayloadV3 Versioned Hashes, Incorrect Hash''\<rparr>,
     BlobTestSequence :=
        [StepSendBlobTransactions
          (zero_SendBlobTransactions
            \<lparr>BlobTransactionSendCount := TARGET_BLOBS_PER_BLOCK,
              BlobTransactionMaxDataGasCost := Some 1\<rparr>),
         StepNewPayloads
          (zero_NewPayloads
            \<lparr>ExpectedIncludedBlobCount := 2,
              ExpectedBlobs := Some [0, 1],
              NewPayloads.VersionedHashes :=
                  Some (zero_VersionedHashes\<lparr>Blobs := Some [0, 2]\<rparr>)\<rparr>)]\<rparr>,

   zero_BlobsBaseSpec
    \<lparr>Spec := \<lparr>Name = ''NewPayloadV3 Versioned Hashes, Incorrect Version''\<rparr>,
     BlobTestSequence :=
        [StepSendBlobTransactions
          (zero_SendBlobTransactions
            \<lparr>BlobTransactionSendCount := TARGET_BLOBS_PER_BLOCK,
              BlobTransactionMaxDataGasCost := Some 1\<rparr>),
         StepNewPayloads
          (zero_NewPayloads
            \<lparr>ExpectedIncludedBlobCount := 2,
              ExpectedBlobs := Some [0, 1],
              NewPayloads.VersionedHashes :=
                  Some (zero_VersionedHashes
                          \<lparr>Blobs := Some [0, 1],
                           HashVersions :=
                             Some [BLOB_COMMITMENT_VERSION_KZG, BLOB_COMMITMENT_VERSION_KZG + 1]\<rparr>)\<rparr>)]\<rparr>,

   zero_BlobsBaseSpec
    \<lparr>Spec := \<lparr>Name = ''NewPayloadV3 Versioned Hashes, Nil Hashes''\<rparr>,
     BlobTestSequence :=
        [StepSendBlobTransactions
          (zero_SendBlobTransactions
            \<lparr>BlobTransactionSendCount := TARGET_BLOBS_PER_BLOCK,
              BlobTransactionMaxDataGasCost := Some 1\<rparr>),
         StepNewPayloads
          (zero_NewPayloads
            \<lparr>ExpectedIncludedBlobCount := 2,
              ExpectedBlobs := Some [0, 1],
              NewPayloads.VersionedHashes :=
                  Some (zero_VersionedHashes\<lparr>Blobs := None\<rparr>)\<rparr>)]\<rparr>,

   zero_BlobsBaseSpec
    \<lparr>Spec := \<lparr>Name = ''NewPayloadV3 Versioned Hashes, Empty Hashes''\<rparr>,
     BlobTestSequence :=
        [StepSendBlobTransactions
          (zero_SendBlobTransactions
            \<lparr>BlobTransactionSendCount := TARGET_BLOBS_PER_BLOCK,
              BlobTransactionMaxDataGasCost := Some 1\<rparr>),
         StepNewPayloads
          (zero_NewPayloads
            \<lparr>ExpectedIncludedBlobCount := 2,
              ExpectedBlobs := Some [0, 1],
              NewPayloads.VersionedHashes :=
                  Some (zero_VersionedHashes\<lparr>Blobs := Some []\<rparr>)\<rparr>)]\<rparr>,

   zero_BlobsBaseSpec
    \<lparr>Spec := \<lparr>Name = ''NewPayloadV3 Versioned Hashes, Non-Empty Hashes''\<rparr>,
     BlobTestSequence :=
        [StepNewPayloads
          (zero_NewPayloads
            \<lparr>ExpectedIncludedBlobCount := 0,
              ExpectedBlobs := Some [],
              NewPayloads.VersionedHashes :=
                  Some (zero_VersionedHashes\<lparr>Blobs := Some [0, 1]\<rparr>)\<rparr>)]\<rparr>,

   zero_BlobsBaseSpec
    \<lparr>Spec := \<lparr>Name = ''NewPayloadV3 Versioned Hashes, Missing Hash (Syncing)''\<rparr>,
     BlobTestSequence :=
        [StepNewPayloads zero_NewPayloads,
         StepSendBlobTransactions
          (zero_SendBlobTransactions
            \<lparr>BlobTransactionSendCount := TARGET_BLOBS_PER_BLOCK,
              BlobTransactionMaxDataGasCost := Some 1\<rparr>),
         StepNewPayloads
          (zero_NewPayloads
            \<lparr>ExpectedIncludedBlobCount := 2,
              ExpectedBlobs := Some [0, 1]\<rparr>),
         StepLaunchClients
          \<lparr>EngineStarter = HiveRPCEngineStarter,
            SkipAddingToCLMock = True,
            SkipConnectingToBootnode = True\<rparr>,
         StepSendModifiedLatestPayload
          \<lparr>ClientID = 1,
            VersionedHashes = Some (zero_VersionedHashes\<lparr>Blobs := Some [0]\<rparr>),
            ExpectedStatus = Invalid\<rparr>]\<rparr>,

   zero_BlobsBaseSpec
    \<lparr>Spec := \<lparr>Name = ''NewPayloadV3 Versioned Hashes, Extra Hash (Syncing)''\<rparr>,
     BlobTestSequence :=
        [StepNewPayloads zero_NewPayloads,
         StepSendBlobTransactions
          (zero_SendBlobTransactions
            \<lparr>BlobTransactionSendCount := TARGET_BLOBS_PER_BLOCK,
              BlobTransactionMaxDataGasCost := Some 1\<rparr>),
         StepNewPayloads
          (zero_NewPayloads
            \<lparr>ExpectedIncludedBlobCount := 2,
              ExpectedBlobs := Some [0, 1]\<rparr>),
         StepLaunchClients
          \<lparr>EngineStarter = HiveRPCEngineStarter,
            SkipAddingToCLMock = True,
            SkipConnectingToBootnode = True\<rparr>,
         StepSendModifiedLatestPayload
          \<lparr>ClientID = 1,
            VersionedHashes = Some (zero_VersionedHashes\<lparr>Blobs := Some [0, 1, 2]\<rparr>),
            ExpectedStatus = Invalid\<rparr>]\<rparr>,

   zero_BlobsBaseSpec
    \<lparr>Spec := \<lparr>Name = ''NewPayloadV3 Versioned Hashes, Out of Order (Syncing)''\<rparr>,
     BlobTestSequence :=
        [StepNewPayloads zero_NewPayloads,
         StepSendBlobTransactions
          (zero_SendBlobTransactions
            \<lparr>BlobTransactionSendCount := TARGET_BLOBS_PER_BLOCK,
              BlobTransactionMaxDataGasCost := Some 1\<rparr>),
         StepNewPayloads
          (zero_NewPayloads
            \<lparr>ExpectedIncludedBlobCount := 2,
              ExpectedBlobs := Some [0, 1]\<rparr>),
         StepLaunchClients
          \<lparr>EngineStarter = HiveRPCEngineStarter,
            SkipAddingToCLMock = True,
            SkipConnectingToBootnode = True\<rparr>,
         StepSendModifiedLatestPayload
          \<lparr>ClientID = 1,
            VersionedHashes = Some (zero_VersionedHashes\<lparr>Blobs := Some [1, 0]\<rparr>),
            ExpectedStatus = Invalid\<rparr>]\<rparr>,

   zero_BlobsBaseSpec
    \<lparr>Spec := \<lparr>Name = ''NewPayloadV3 Versioned Hashes, Repeated Hash (Syncing)''\<rparr>,
     BlobTestSequence :=
        [StepNewPayloads zero_NewPayloads,
         StepSendBlobTransactions
          (zero_SendBlobTransactions
            \<lparr>BlobTransactionSendCount := TARGET_BLOBS_PER_BLOCK,
              BlobTransactionMaxDataGasCost := Some 1\<rparr>),
         StepNewPayloads
          (zero_NewPayloads
            \<lparr>ExpectedIncludedBlobCount := 2,
              ExpectedBlobs := Some [0, 1]\<rparr>),
         StepLaunchClients
          \<lparr>EngineStarter = HiveRPCEngineStarter,
            SkipAddingToCLMock = True,
            SkipConnectingToBootnode = True\<rparr>,
         StepSendModifiedLatestPayload
          \<lparr>ClientID = 1,
            VersionedHashes = Some (zero_VersionedHashes\<lparr>Blobs := Some [0, 1, 1]\<rparr>),
            ExpectedStatus = Invalid\<rparr>]\<rparr>,

   zero_BlobsBaseSpec
    \<lparr>Spec := \<lparr>Name = ''NewPayloadV3 Versioned Hashes, Incorrect Hash (Syncing)''\<rparr>,
     BlobTestSequence :=
        [StepNewPayloads zero_NewPayloads,
         StepSendBlobTransactions
          (zero_SendBlobTransactions
            \<lparr>BlobTransactionSendCount := TARGET_BLOBS_PER_BLOCK,
              BlobTransactionMaxDataGasCost := Some 1\<rparr>),
         StepNewPayloads
          (zero_NewPayloads
            \<lparr>ExpectedIncludedBlobCount := 2,
              ExpectedBlobs := Some [0, 1]\<rparr>),
         StepLaunchClients
          \<lparr>EngineStarter = HiveRPCEngineStarter,
            SkipAddingToCLMock = True,
            SkipConnectingToBootnode = True\<rparr>,
         StepSendModifiedLatestPayload
          \<lparr>ClientID = 1,
            VersionedHashes = Some (zero_VersionedHashes\<lparr>Blobs := Some [0, 2]\<rparr>),
            ExpectedStatus = Invalid\<rparr>]\<rparr>,

   zero_BlobsBaseSpec
    \<lparr>Spec := \<lparr>Name = ''NewPayloadV3 Versioned Hashes, Incorrect Version (Syncing)''\<rparr>,
     BlobTestSequence :=
        [StepNewPayloads zero_NewPayloads,
         StepSendBlobTransactions
          (zero_SendBlobTransactions
            \<lparr>BlobTransactionSendCount := TARGET_BLOBS_PER_BLOCK,
              BlobTransactionMaxDataGasCost := Some 1\<rparr>),
         StepNewPayloads
          (zero_NewPayloads
            \<lparr>ExpectedIncludedBlobCount := 2,
              ExpectedBlobs := Some [0, 1]\<rparr>),
         StepLaunchClients
          \<lparr>EngineStarter = HiveRPCEngineStarter,
            SkipAddingToCLMock = True,
            SkipConnectingToBootnode = True\<rparr>,
         StepSendModifiedLatestPayload
          \<lparr>ClientID = 1,
            VersionedHashes = Some (zero_VersionedHashes
                    \<lparr>Blobs := Some [0, 1],
                     HashVersions :=
                       Some [BLOB_COMMITMENT_VERSION_KZG, BLOB_COMMITMENT_VERSION_KZG + 1]\<rparr>),
            ExpectedStatus = Invalid\<rparr>]\<rparr>,

   zero_BlobsBaseSpec
    \<lparr>Spec := \<lparr>Name = ''NewPayloadV3 Versioned Hashes, Nil Hashes (Syncing)''\<rparr>,
     BlobTestSequence :=
        [StepNewPayloads zero_NewPayloads,
         StepSendBlobTransactions
          (zero_SendBlobTransactions
            \<lparr>BlobTransactionSendCount := TARGET_BLOBS_PER_BLOCK,
              BlobTransactionMaxDataGasCost := Some 1\<rparr>),
         StepNewPayloads
          (zero_NewPayloads
            \<lparr>ExpectedIncludedBlobCount := 2,
              ExpectedBlobs := Some [0, 1]\<rparr>),
         StepLaunchClients
          \<lparr>EngineStarter = HiveRPCEngineStarter,
            SkipAddingToCLMock = True,
            SkipConnectingToBootnode = True\<rparr>,
         StepSendModifiedLatestPayload
          \<lparr>ClientID = 1,
            VersionedHashes = Some (zero_VersionedHashes\<lparr>Blobs := None\<rparr>),
            ExpectedStatus = Invalid\<rparr>]\<rparr>,

   zero_BlobsBaseSpec
    \<lparr>Spec := \<lparr>Name = ''NewPayloadV3 Versioned Hashes, Empty Hashes (Syncing)''\<rparr>,
     BlobTestSequence :=
        [StepNewPayloads zero_NewPayloads,
         StepSendBlobTransactions
          (zero_SendBlobTransactions
            \<lparr>BlobTransactionSendCount := TARGET_BLOBS_PER_BLOCK,
              BlobTransactionMaxDataGasCost := Some 1\<rparr>),
         StepNewPayloads
          (zero_NewPayloads
            \<lparr>ExpectedIncludedBlobCount := 2,
              ExpectedBlobs := Some [0, 1]\<rparr>),
         StepLaunchClients
          \<lparr>EngineStarter = HiveRPCEngineStarter,
            SkipAddingToCLMock = True,
            SkipConnectingToBootnode = True\<rparr>,
         StepSendModifiedLatestPayload
          \<lparr>ClientID = 1,
            VersionedHashes = Some (zero_VersionedHashes\<lparr>Blobs := Some []\<rparr>),
            ExpectedStatus = Invalid\<rparr>]\<rparr>,

   zero_BlobsBaseSpec
    \<lparr>Spec := \<lparr>Name = ''NewPayloadV3 Versioned Hashes, Non-Empty Hashes (Syncing)''\<rparr>,
     BlobTestSequence :=
        [StepNewPayloads zero_NewPayloads,
         StepNewPayloads
          (zero_NewPayloads
            \<lparr>ExpectedIncludedBlobCount := 0,
              ExpectedBlobs := Some []\<rparr>),
         StepLaunchClients
          \<lparr>EngineStarter = HiveRPCEngineStarter,
            SkipAddingToCLMock = True,
            SkipConnectingToBootnode = True\<rparr>,
         StepSendModifiedLatestPayload
          \<lparr>ClientID = 1,
            VersionedHashes = Some (zero_VersionedHashes\<lparr>Blobs := Some [0, 1]\<rparr>),
            ExpectedStatus = Invalid\<rparr>]\<rparr>,

   zero_BlobsBaseSpec
    \<lparr>Spec := \<lparr>Name = ''Incorrect DataGasUsed: Non-Zero on Zero Blobs''\<rparr>,
     BlobTestSequence :=
        [StepNewPayloads
          (zero_NewPayloads
            \<lparr>ExpectedIncludedBlobCount := 0,
              PayloadCustomizer :=
                  Some (zero_CustomPayloadData\<lparr>DataGasUsed := pUint64 1\<rparr>)\<rparr>)]\<rparr>,

   zero_BlobsBaseSpec
    \<lparr>Spec := \<lparr>Name = ''Incorrect DataGasUsed: DATA_GAS_PER_BLOB on Zero Blobs''\<rparr>,
     BlobTestSequence :=
        [StepNewPayloads
          (zero_NewPayloads
            \<lparr>ExpectedIncludedBlobCount := 0,
              PayloadCustomizer :=
                  Some (zero_CustomPayloadData\<lparr>DataGasUsed := pUint64 DATA_GAS_PER_BLOB\<rparr>)\<rparr>)]\<rparr>]"

subsection \<open>Defaults and what a step sequence announces\<close>

text \<open>
  Modelled from the spec: the accessors through which the steps read \<open>PayloadCount\<close> and
  \<open>BlobsPerTransaction\<close> are not among the sources. A next-payload step is repeated
  payloadCount times (section 4.5) and a transaction carries 1..N blobs (section 2); a
  step of the table that leaves the count out stands for one payload, respectively one
  blob per transaction, as the comments of the table say (\<open>We create the first payload\<close>;
  \<open>Blob ID 0\<close> to \<open>Blob ID 3\<close> on four sends of one transaction each).
\<close>

definition GetPayloadCount :: "NewPayloads \<Rightarrow> 64 word" where
  "GetPayloadCount step = (if PayloadCount step = 0 then 1 else PayloadCount step)"

definition GetBlobsPerTransaction :: "SendBlobTransactions \<Rightarrow> 64 word" where
  "GetBlobsPerTransaction step =
     (if BlobsPerTransaction step = 0 then 1 else BlobsPerTransaction step)"

text \<open>
  Modelled from the spec: the expected payload sequence of a step sequence. Each
  next-payload step contributes its expected included-blob count once per repetition
  (section 4.5); the other step kinds produce no payload.
\<close>

fun expectedPayloads :: "TestStep list \<Rightarrow> 64 word list" where
  "expectedPayloads [] = []"
| "expectedPayloads (StepNewPayloads p # rest) =
     replicate (unat (GetPayloadCount p)) (ExpectedIncludedBlobCount p) @ expectedPayloads rest"
| "expectedPayloads (_ # rest) = expectedPayloads rest"

text \<open>
  Modelled from the spec: the transactions a step sequence submits (section 4.3; the send
  step itself is not among the sources). Blob ids come from one counter that only grows,
  \<open>blobsPerTransaction\<close> fresh ids per transaction. The nonce is the account's next one,
  which then advances; with \<open>replace\<close> set it is the previous nonce issued to the account
  and the next nonce stays the one after it. The specification does not say what
  \<open>replace\<close> does on an account without a previous nonce; here the subtraction stops
  at 0.
\<close>

record SentTransaction =
  sentAccount :: "64 word"
  sentNonce :: nat
  sentBlobs :: "BlobID list"
  sentGasFeeCap :: "int option"
  sentGasTipCap :: "int option"
  sentMaxDataGasCost :: "int option"

fun sendOne ::
  "SendBlobTransactions \<Rightarrow> nat \<Rightarrow> BlobID \<times> (64 word \<Rightarrow> nat)
     \<Rightarrow> SentTransaction list \<times> BlobID \<times> (64 word \<Rightarrow> nat)" where
  "sendOne step 0 (nextBlob, nextNonce) = ([], nextBlob, nextNonce)"
| "sendOne step (Suc k) (nextBlob, nextNonce) =
     (let account = AccountIndex step;
          nonce = (if ReplaceTransactions step then nextNonce account - 1
                   else nextNonce account);
          blobs = unat (GetBlobsPerTransaction step);
          tx = \<lparr>sentAccount = account, sentNonce = nonce,
                sentBlobs = [nextBlob ..< nextBlob + blobs],
                sentGasFeeCap = BlobTransactionGasFeeCap step,
                sentGasTipCap = BlobTransactionGasTipCap step,
                sentMaxDataGasCost = BlobTransactionMaxDataGasCost step\<rparr>;
          (txs, st) = sendOne step k (nextBlob + blobs, nextNonce(account := Suc nonce))
      in (tx # txs, st))"

fun sentTransactions ::
  "TestStep list \<Rightarrow> BlobID \<times> (64 word \<Rightarrow> nat) \<Rightarrow> SentTransaction list" where
  "sentTransactions [] st = []"
| "sentTransactions (StepSendBlobTransactions s # rest) st =
     (let (txs, st') = sendOne s (unat (BlobTransactionSendCount s)) st
      in txs @ sentTransactions rest st')"
| "sentTransactions (_ # rest) st = sentTransactions rest st"

subsection \<open>Execution of a test case\<close>

text \<open>
  Modelled from the spec: \<open>test.Env\<close>, its consensus-layer mock, \<open>Logf\<close>, \<open>Fatalf\<close> and
  \<open>BlobTestContext\<close> are not among the sources. The environment keeps what \<open>Execute\<close>
  touches: the mock's \<open>PayloadProductionClientDelay\<close> (a \<open>time.Duration\<close>, 64 bits of
  nanoseconds) and the lines printed, each as its format string and arguments. \<open>Logf\<close>
  prints a line. \<open>Fatalf\<close> prints a line and aborts the test case (section 2: the first
  failing assertion aborts the test case; section 7: every failure is fatal and is
  reported with the step index); the abort is the \<open>StepFailed\<close> outcome of the loop. The
  wait for the terminal total difficulty either returns or fails fatally on its timeout
  (section 5); it is a parameter, \<open>None\<close> being the timeout.
\<close>

datatype log_arg = LogInt int | LogString string | LogError error

record CLMocker =
  PayloadProductionClientDelay :: "64 word"

record Env =
  CLMock :: CLMocker
  Output :: "(string \<times> log_arg list) list"

record BlobTestContext =
  Env :: Env
  TestBlobTxPool :: TestBlobTxPool

definition Logf :: "Env \<Rightarrow> string \<Rightarrow> log_arg list \<Rightarrow> Env" where
  "Logf t format args = t\<lparr>Output := Output t @ [(format, args)]\<rparr>"

definition Fatalf :: "Env \<Rightarrow> string \<Rightarrow> log_arg list \<Rightarrow> Env" where
  "Fatalf t format args = t\<lparr>Output := Output t @ [(format, args)]\<rparr>"

definition Second :: "64 word" where
  "Second = 1000000000"

datatype outcome = Completed BlobTestContext | StepFailed BlobTestContext | WaitFailed

text \<open>
  The \<open>for stepId, step := range bs.BlobTestSequence\<close> loop. \<open>t\<close> and
  \<open>blobTestCtx.Env\<close> are the same environment, so the lines go to the context's
  environment. \<open>stepExecute\<close> and \<open>stepDescription\<close> are the \<open>Execute\<close> and
  \<open>Description\<close> methods of the steps, which are not among the sources: a step takes the
  shared context and returns it changed, with an error or nil.
\<close>

definition announceStep :: "(TestStep \<Rightarrow> string) \<Rightarrow> nat \<Rightarrow> TestStep \<Rightarrow> BlobTestContext
     \<Rightarrow> BlobTestContext" where
  "announceStep stepDescription stepId step ctx =
     ctx\<lparr>Env := Logf (Env ctx) ''INFO: Executing step %d: %s''
                   [LogInt (int stepId + 1), LogString (stepDescription step)]\<rparr>"

fun Execute_loop ::
  "(TestStep \<Rightarrow> BlobTestContext \<Rightarrow> BlobTestContext \<times> error option) \<Rightarrow> (TestStep \<Rightarrow> string)
     \<Rightarrow> nat \<Rightarrow> TestStep list \<Rightarrow> BlobTestContext \<Rightarrow> outcome" where
  "Execute_loop stepExecute stepDescription stepId [] ctx = Completed ctx"
| "Execute_loop stepExecute stepDescription stepId (step # rest) ctx =
     (case stepExecute step (announceStep stepDescription stepId step ctx) of
        (ctx', Some err) \<Rightarrow>
          StepFailed (ctx'\<lparr>Env := Fatalf (Env ctx') ''FAIL: Error executing step %d: %v''
                                     [LogInt (int stepId + 1), LogError err]\<rparr>)
      | (ctx', None) \<Rightarrow> Execute_loop stepExecute stepDescription (stepId + 1) rest ctx')"

text \<open>
  What \<open>Execute\<close> does between the wait and the loop: the context with a new pool, and
  the mock's delay set when the test case asks for one
  (\<open>time.Duration(bs.GetPayloadDelay) * time.Second\<close>, a 64-bit product).
\<close>

definition Execute_context :: "BlobsBaseSpec \<Rightarrow> Env \<Rightarrow> BlobTestContext" where
  "Execute_context bs t =
     (let t' = (if BlobsBaseSpec.GetPayloadDelay bs \<noteq> 0
                then t\<lparr>CLMock := (CLMock t)
                        \<lparr>PayloadProductionClientDelay :=
                           BlobsBaseSpec.GetPayloadDelay bs * Second\<rparr>\<rparr>
                else t)
      in \<lparr>Env = t', TestBlobTxPool = \<lparr>Transactions = None\<rparr>\<rparr>)"

definition BlobsBaseSpec_Execute ::
  "(Env \<Rightarrow> Env option) \<Rightarrow> (TestStep \<Rightarrow> BlobTestContext \<Rightarrow> BlobTestContext \<times> error option)
     \<Rightarrow> (TestStep \<Rightarrow> string) \<Rightarrow> BlobsBaseSpec \<Rightarrow> Env \<Rightarrow> outcome" where
  "BlobsBaseSpec_Execute WaitForTTD stepExecute stepDescription bs t =
     (case WaitForTTD t of
        None \<Rightarrow> WaitFailed
      | Some t' \<Rightarrow>
          Execute_loop stepExecute stepDescription 0 (BlobTestSequence bs)
            (Execute_context bs t'))"

text \<open>
  The steps of a sequence all succeed when run in order from step number \<open>stepId\<close>: each
  is announced, executed on the context its predecessor left, and returns nil.
\<close>

inductive steps_succeed ::
  "(TestStep \<Rightarrow> BlobTestContext \<Rightarrow> BlobTestContext \<times> error option) \<Rightarrow> (TestStep \<Rightarrow> string)
     \<Rightarrow> nat \<Rightarrow> TestStep list \<Rightarrow> BlobTestContext \<Rightarrow> BlobTestContext \<Rightarrow> bool"
  for stepExecute stepDescription where
  no_step: "steps_succeed stepExecute stepDescription stepId [] ctx ctx"
| one_more:
    "stepExecute step (announceStep stepDescription stepId step ctx) = (ctx', None) \<Longrightarrow>
     steps_succeed stepExecute stepDescription (Suc stepId) rest ctx' ctx'' \<Longrightarrow>
     steps_succeed stepExecute stepDescription stepId (step # rest) ctx ctx''"

text \<open>A small test case and step behaviour used to instantiate the statements below.\<close>

definition example_launch :: TestStep where
  "example_launch =
     StepLaunchClients \<lparr>EngineStarter = HiveRPCEngineStarter, SkipAddingToCLMock = True,
                        SkipConnectingToBootnode = False\<rparr>"

definition example_stepExecute :: "TestStep \<Rightarrow> BlobTestContext \<Rightarrow> BlobTestContext \<times> error option" where
  "example_stepExecute step ctx =
     (case step of
        StepLaunchClients l \<Rightarrow> (ctx, Some (ClientError ''client did not start''))
      | _ \<Rightarrow> (ctx, None))"

definition example_spec :: BlobsBaseSpec where
  "example_spec =
     zero_BlobsBaseSpec
       \<lparr>BlobTestSequence :=
          [StepNewPayloads zero_NewPayloads, example_launch, StepNewPayloads zero_NewPayloads]\<rparr>"

definition example_env :: Env where
  "example_env = \<lparr>CLMock = \<lparr>PayloadProductionClientDelay = 0\<rparr>, Output = []\<rparr>"

text \<open>
  The steps of a table that send a modified latest payload, each with the name of its
  test case, in the order of the table.
\<close>

definition modifiedPayloadSteps :: "BlobsBaseSpec list \<Rightarrow> (string \<times> SendModifiedLatestPayload) list" where
  "modifiedPayloadSteps tests =
     concat (map (\<lambda>bs. concat (map (\<lambda>step. case step of
                                       StepSendModifiedLatestPayload s \<Rightarrow> [(Name (Spec bs), s)]
                                     | _ \<Rightarrow> [])
                                 (BlobTestSequence bs)))
                 tests)"

text \<open>Sample values of the two parameters of the table, used to instantiate statements.\<close>

definition example_GetMinExcessDataBlobsForDataGasPrice :: "64 word \<Rightarrow> 64 word" where
  "example_GetMinExcessDataBlobsForDataGasPrice data_gas_price = 18"

definition example_GetBlobList :: "BlobID \<Rightarrow> 64 word \<Rightarrow> BlobID list option" where
  "example_GetBlobList startId count = Some [startId ..< startId + unat count]"

section \<open>Properties of the versioned-hash construction\<close>

lemma length_BytesToHash: "length (BytesToHash b) = HashLength"
  by (simp add: BytesToHash_def Let_def)

lemma BytesToHash_exact: "length b = HashLength \<Longrightarrow> BytesToHash b = b"
  by (simp add: BytesToHash_def)

lemma length_versionedHashes_loop:
  "length (versionedHashes_loop sha256 v ps vh) = length vh"
  by (induction ps arbitrary: vh) (auto simp: Let_def)

lemma versionedHashes_loop_enumerate:
  "length vh = k + length cs \<Longrightarrow>
   versionedHashes_loop sha256 v (enumerate k cs) vh =
     take k vh @ map (\<lambda>c. BytesToHash (v # drop 1 (sha256 c))) cs"
proof (induction cs arbitrary: k vh)
  case Nil
  then show ?case by simp
next
  case (Cons c cs)
  let ?h = "BytesToHash (v # drop 1 (sha256 c))"
  have len: "length (vh[k := ?h]) = Suc k + length cs"
    using Cons.prems by simp
  have "versionedHashes_loop sha256 v (enumerate k (c # cs)) vh =
        versionedHashes_loop sha256 v (enumerate (Suc k) cs) (vh[k := ?h])"
    by (simp add: Let_def)
  also have "\<dots> = take (Suc k) (vh[k := ?h]) @ map (\<lambda>c. BytesToHash (v # drop 1 (sha256 c))) cs"
    by (rule Cons.IH [OF len])
  also have "take (Suc k) (vh[k := ?h]) = take k vh @ [?h]"
    using Cons.prems by (simp add: take_Suc_conv_app_nth)
  finally show ?case by simp
qed

lemma VersionedHashesFromBlobBundle_Some:
  "Commitments b = Some cs \<Longrightarrow>
   VersionedHashesFromBlobBundle sha256 (Some b) v =
     Inr (map (\<lambda>c. BytesToHash (v # drop 1 (sha256 c))) cs)"
  by (simp add: VersionedHashesFromBlobBundle_def versionedHashes_loop_enumerate)

text \<open>
  Claim C1. For a non-nil blob bundle with a non-nil commitments list and any version
  byte \<open>v\<close>, the result is, position by position, the 32-byte hash \<open>v\<close> followed by the
  last 31 bytes of \<open>sha256 c\<close>. \<open>Sum256\<close> returns a \<open>[32]byte\<close>, which is the hypothesis on
  the parameter \<open>sha256\<close>.
\<close>

theorem VersionedHashesFromBlobBundle_canonical:
  assumes "\<forall>c. length (sha256 c) = 32"
    and "Commitments b = Some cs"
  shows "\<exists>hs. VersionedHashesFromBlobBundle sha256 (Some b) v = Inr hs
           \<and> length hs = length cs
           \<and> (\<forall>i < length cs.
                 hs ! i = v # drop 1 (sha256 (cs ! i))
               \<and> length (hs ! i) = 32
               \<and> hd (hs ! i) = v
               \<and> tl (hs ! i) = tl (sha256 (cs ! i)))"
proof -
  let ?f = "\<lambda>c. BytesToHash (v # drop 1 (sha256 c))"
  have eq: "VersionedHashesFromBlobBundle sha256 (Some b) v = Inr (map ?f cs)"
    using assms(2) by (rule VersionedHashesFromBlobBundle_Some)
  have elem: "?f c = v # drop 1 (sha256 c) \<and> length (?f c) = 32 \<and> hd (?f c) = v
                \<and> tl (?f c) = tl (sha256 c)" for c
  proof -
    have len: "length (sha256 c) = 32"
      using assms(1) by blast
    then have "length (v # drop 1 (sha256 c)) = HashLength"
      by (simp add: HashLength_def)
    then have "?f c = v # drop 1 (sha256 c)"
      by (rule BytesToHash_exact)
    then show ?thesis
      using len by (simp add: drop_Suc)
  qed
  have nth: "\<forall>i < length cs.
          map ?f cs ! i = v # drop 1 (sha256 (cs ! i))
        \<and> length (map ?f cs ! i) = 32
        \<and> hd (map ?f cs ! i) = v
        \<and> tl (map ?f cs ! i) = tl (sha256 (cs ! i))"
  proof (intro allI impI)
    fix i
    assume i: "i < length cs"
    show "map ?f cs ! i = v # drop 1 (sha256 (cs ! i))
        \<and> length (map ?f cs ! i) = 32
        \<and> hd (map ?f cs ! i) = v
        \<and> tl (map ?f cs ! i) = tl (sha256 (cs ! i))"
      unfolding nth_map [OF i] by (rule elem)
  qed
  have "length (map ?f cs) = length cs"
    by simp
  with eq nth show ?thesis
    by blast
qed

theorem VersionedHashesFromBlobBundle_canonical_witness:
  "(\<forall>c. length (take 32 (c @ replicate 32 (0::byte))) = 32)
   \<and> Commitments \<lparr>Commitments = Some [ [10, 11], [12] ], Blobs = None, Proofs = None\<rparr>
       = Some [ [10, 11], [12] ]
   \<and> (\<exists>hs. VersionedHashesFromBlobBundle (\<lambda>c. take 32 (c @ replicate 32 0))
             (Some \<lparr>Commitments = Some [ [10, 11], [12] ], Blobs = None, Proofs = None\<rparr>) 1
             = Inr hs
         \<and> hs ! 0 = 1 # 11 # replicate 30 0
         \<and> hs ! 1 = 1 # replicate 31 0)"
proof -
  have h1: "\<forall>c. length (take 32 (c @ replicate 32 (0::byte))) = 32"
    by (simp add: min_def)
  have h2: "Commitments \<lparr>Commitments = Some [ [10, 11], [12::byte] ], Blobs = None, Proofs = None\<rparr>
              = Some [ [10, 11], [12] ]"
    by simp
  from VersionedHashesFromBlobBundle_canonical [OF h1 h2, of 1]
  obtain hs where
    hs: "VersionedHashesFromBlobBundle (\<lambda>c. take 32 (c @ replicate 32 0))
           (Some \<lparr>Commitments = Some [ [10, 11], [12] ], Blobs = None, Proofs = None\<rparr>) 1 = Inr hs"
    and nth: "\<forall>i < length [ [10, 11], [12::byte] ].
                hs ! i = 1 # drop 1 (take 32 ([ [10, 11], [12] ] ! i @ replicate 32 0))"
    by blast
  from nth have "hs ! 0 = 1 # drop 1 (take 32 ([10, 11] @ replicate 32 (0::byte)))"
    by simp
  moreover from nth have "hs ! 1 = 1 # drop 1 (take 32 ([12] @ replicate 32 (0::byte)))"
    by simp
  ultimately have "hs ! 0 = 1 # 11 # replicate 30 0 \<and> hs ! 1 = 1 # replicate 31 0"
    by (simp add: numeral_eq_Suc)
  with hs h1 h2 show ?thesis by blast
qed

text \<open>
  Claim C9. The function returns an error exactly when the bundle pointer is nil or its
  commitments list is nil; otherwise it returns a list of hashes as long as the
  commitments list.
\<close>

theorem VersionedHashesFromBlobBundle_error_iff:
  "((\<exists>e. VersionedHashesFromBlobBundle sha256 bb v = Inl e)
      \<longleftrightarrow> (bb = None \<or> (\<exists>b. bb = Some b \<and> Commitments b = None)))
   \<and> (\<forall>b cs. bb = Some b \<and> Commitments b = Some cs \<longrightarrow>
         (\<exists>hs. VersionedHashesFromBlobBundle sha256 bb v = Inr hs \<and> length hs = length cs))"
proof (intro conjI allI impI)
  show "(\<exists>e. VersionedHashesFromBlobBundle sha256 bb v = Inl e)
          \<longleftrightarrow> (bb = None \<or> (\<exists>b. bb = Some b \<and> Commitments b = None))"
    by (auto simp: VersionedHashesFromBlobBundle_def split: option.splits)
next
  fix b cs
  assume "bb = Some b \<and> Commitments b = Some cs"
  then show "\<exists>hs. VersionedHashesFromBlobBundle sha256 bb v = Inr hs \<and> length hs = length cs"
    by (simp add: VersionedHashesFromBlobBundle_def length_versionedHashes_loop)
qed

theorem VersionedHashesFromBlobBundle_error_iff_witness:
  "(\<exists>e. VersionedHashesFromBlobBundle (\<lambda>c. c) None 1 = Inl e)
   \<and> (\<exists>e. VersionedHashesFromBlobBundle (\<lambda>c. c)
            (Some \<lparr>Commitments = None, Blobs = None, Proofs = None\<rparr>) 1 = Inl e)
   \<and> (\<exists>hs. VersionedHashesFromBlobBundle (\<lambda>c. c)
            (Some \<lparr>Commitments = Some [ [7], [8], [9] ], Blobs = None, Proofs = None\<rparr>) 1 = Inr hs
          \<and> length hs = length [ [7], [8], [9::byte] ])"
  using VersionedHashesFromBlobBundle_error_iff [of "\<lambda>c. c" None 1]
    VersionedHashesFromBlobBundle_error_iff
      [of "\<lambda>c. c" "Some \<lparr>Commitments = None, Blobs = None, Proofs = None\<rparr>" 1]
    VersionedHashesFromBlobBundle_error_iff
      [of "\<lambda>c. c" "Some \<lparr>Commitments = Some [ [7], [8], [9] ], Blobs = None, Proofs = None\<rparr>" 1]
  by simp

section \<open>Properties of the test pool\<close>

lemma AddBlobTransaction_result:
  "AddBlobTransaction pool tx =
     Inr (pool\<lparr>Transactions :=
            Some ((case Transactions pool of None \<Rightarrow> Map.empty | Some m \<Rightarrow> m)
                    (Hash tx \<mapsto> tx))\<rparr>)"
  by (cases "Transactions pool") (simp_all add: AddBlobTransaction_def map_store_def)

text \<open>
  Claim C5. Adding never fails, stores the transaction under \<open>tx.Hash()\<close> whatever was there,
  leaves every other hash as it was, and adding the same transaction again changes
  nothing.
\<close>

theorem AddBlobTransaction_store_idempotent:
  "\<exists>p. AddBlobTransaction pool tx = Inr p
       \<and> map_load (Transactions p) (Hash tx) = Some tx
       \<and> (\<forall>h. h \<noteq> Hash tx \<longrightarrow>
             map_load (Transactions p) h = map_load (Transactions pool) h)
       \<and> AddBlobTransaction p tx = Inr p"
proof -
  let ?m = "case Transactions pool of None \<Rightarrow> Map.empty | Some m \<Rightarrow> m"
  let ?p = "pool\<lparr>Transactions := Some (?m(Hash tx \<mapsto> tx))\<rparr>"
  have 1: "AddBlobTransaction pool tx = Inr ?p"
    by (rule AddBlobTransaction_result)
  have 2: "map_load (Transactions ?p) (Hash tx) = Some tx"
    by (simp add: map_load_def)
  have 3: "\<forall>h. h \<noteq> Hash tx \<longrightarrow>
             map_load (Transactions ?p) h = map_load (Transactions pool) h"
    by (cases "Transactions pool") (simp_all add: map_load_def)
  have 4: "AddBlobTransaction ?p tx = Inr ?p"
    by (simp add: AddBlobTransaction_result)
  from 1 2 3 4 show ?thesis by blast
qed

theorem AddBlobTransaction_store_idempotent_witness:
  "\<exists>p. AddBlobTransaction
          \<lparr>Transactions = Some [replicate 32 7 \<mapsto> example_tx\<lparr>Nonce := 9\<rparr>,
                                replicate 32 8 \<mapsto> example_tx]\<rparr> example_tx = Inr p
       \<and> map_load (Transactions p) (replicate 32 7) = Some example_tx
       \<and> map_load (Transactions p) (replicate 32 8) = Some example_tx
       \<and> AddBlobTransaction p example_tx = Inr p"
proof -
  let ?pool = "\<lparr>Transactions = Some [replicate 32 7 \<mapsto> example_tx\<lparr>Nonce := 9\<rparr>,
                                     replicate 32 (8::byte) \<mapsto> example_tx]\<rparr>"
  have h: "Hash example_tx = replicate 32 7"
    by (simp add: example_tx_def)
  have ne: "replicate 32 (8::byte) \<noteq> Hash example_tx"
    by (simp add: h numeral_eq_Suc)
  from AddBlobTransaction_store_idempotent [of ?pool example_tx]
  obtain p where p: "AddBlobTransaction ?pool example_tx = Inr p"
    and l: "map_load (Transactions p) (Hash example_tx) = Some example_tx"
    and o: "\<forall>h. h \<noteq> Hash example_tx \<longrightarrow>
              map_load (Transactions p) h = map_load (Transactions ?pool) h"
    and i: "AddBlobTransaction p example_tx = Inr p"
    by blast
  from o ne have "map_load (Transactions p) (replicate 32 8) =
                  map_load (Transactions ?pool) (replicate 32 8)"
    by blast
  then have "map_load (Transactions p) (replicate 32 8) = Some example_tx"
    by (simp add: map_load_def)
  with p l i h show ?thesis by auto
qed

text \<open>
  Claim C10. On a fresh pool, whose \<open>Transactions\<close> map is nil, adding does not panic: the
  map is created first, and afterwards the hash of the transaction is found with exactly
  that transaction, and nothing else is in the map.
\<close>

theorem AddBlobTransaction_fresh_pool:
  "AddBlobTransaction \<lparr>Transactions = None\<rparr> tx
     = Inr \<lparr>Transactions = Some [Hash tx \<mapsto> tx]\<rparr>
   \<and> map_load (Some [Hash tx \<mapsto> tx]) (Hash tx) = Some tx"
  by (simp add: AddBlobTransaction_def map_store_def map_load_def)

section \<open>Properties of the transaction verifier\<close>













text \<open>
  Where exactly one of a pair of big integers is nil and nothing before it differs, the
  comparison does not return: \<open>Cmp\<close> panics. Here the fetched transaction has no blob fee
  cap and the local one has.
\<close>

lemma verifyFields_one_nil_big_int_panics:
  "verifyFields example_Hex (example_tx\<lparr>BlobGasFeeCap := None\<rparr>) example_tx
     = Inl NilPointerDereference"
  by (simp add: verifyFields_def Cmp_def example_tx_def)




section \<open>Properties of the execution of a test case\<close>

lemma Execute_loop_after_successes:
  "steps_succeed stepExecute stepDescription stepId pre ctx ctx' \<Longrightarrow>
   Execute_loop stepExecute stepDescription stepId (pre @ rest) ctx =
     Execute_loop stepExecute stepDescription (stepId + length pre) rest ctx'"
proof (induction rule: steps_succeed.induct)
  case (no_step stepId ctx)
  show ?case by simp
next
  case (one_more step stepId ctx ctx' rest' ctx'')
  then show ?case by simp
qed

text \<open>
  Claim C3. After a successful wait, the steps run in the order of the sequence, each on
  the context left by the one before it. If the steps before \<open>step\<close> all return nil and
  \<open>step\<close> returns an error, the test case fails fatally: the line printed last carries
  the number of the step (its position counted from 1, \<open>stepId+1\<close>) and the error, and the
  outcome is the context that \<open>step\<close> left, whatever the later steps \<open>post\<close> are: none
  of them is executed. If every step returns nil the test case completes with the
  context left by the last step.
\<close>

theorem BlobsBaseSpec_Execute_first_error_aborts:
  assumes "WaitForTTD t = Some t'"
  shows
   "(BlobTestSequence bs = pre @ step # post
       \<and> steps_succeed stepExecute stepDescription 0 pre (Execute_context bs t') ctx
       \<and> stepExecute step (announceStep stepDescription (length pre) step ctx) = (ctx', Some err)
     \<longrightarrow> BlobsBaseSpec_Execute WaitForTTD stepExecute stepDescription bs t =
           StepFailed (ctx'\<lparr>Env := Fatalf (Env ctx') ''FAIL: Error executing step %d: %v''
                                      [LogInt (int (length pre) + 1), LogError err]\<rparr>)
         \<and> last (Output (Env (ctx'\<lparr>Env := Fatalf (Env ctx') ''FAIL: Error executing step %d: %v''
                                      [LogInt (int (length pre) + 1), LogError err]\<rparr>))) =
             (''FAIL: Error executing step %d: %v'', [LogInt (int (length pre) + 1), LogError err]))
    \<and> (steps_succeed stepExecute stepDescription 0 (BlobTestSequence bs)
          (Execute_context bs t') ctx
     \<longrightarrow> BlobsBaseSpec_Execute WaitForTTD stepExecute stepDescription bs t = Completed ctx)"
proof (intro conjI impI)
  assume a: "BlobTestSequence bs = pre @ step # post
       \<and> steps_succeed stepExecute stepDescription 0 pre (Execute_context bs t') ctx
       \<and> stepExecute step (announceStep stepDescription (length pre) step ctx) = (ctx', Some err)"
  then have "Execute_loop stepExecute stepDescription 0 (pre @ step # post) (Execute_context bs t')
             = Execute_loop stepExecute stepDescription (0 + length pre) (step # post) ctx"
    by (intro Execute_loop_after_successes) simp
  also have "\<dots> = StepFailed (ctx'\<lparr>Env := Fatalf (Env ctx') ''FAIL: Error executing step %d: %v''
                                      [LogInt (int (length pre) + 1), LogError err]\<rparr>)"
    using a by simp
  finally show "BlobsBaseSpec_Execute WaitForTTD stepExecute stepDescription bs t =
           StepFailed (ctx'\<lparr>Env := Fatalf (Env ctx') ''FAIL: Error executing step %d: %v''
                                      [LogInt (int (length pre) + 1), LogError err]\<rparr>)"
    using assms a by (simp add: BlobsBaseSpec_Execute_def)
  show "last (Output (Env (ctx'\<lparr>Env := Fatalf (Env ctx') ''FAIL: Error executing step %d: %v''
                                      [LogInt (int (length pre) + 1), LogError err]\<rparr>))) =
             (''FAIL: Error executing step %d: %v'', [LogInt (int (length pre) + 1), LogError err])"
    by (simp add: Fatalf_def)
next
  assume "steps_succeed stepExecute stepDescription 0 (BlobTestSequence bs)
          (Execute_context bs t') ctx"
  from Execute_loop_after_successes [OF this, of "[]"]
  show "BlobsBaseSpec_Execute WaitForTTD stepExecute stepDescription bs t = Completed ctx"
    using assms by (simp add: BlobsBaseSpec_Execute_def)
qed

theorem BlobsBaseSpec_Execute_first_error_aborts_witness:
  "BlobsBaseSpec_Execute Some example_stepExecute (\<lambda>step. ''step'') example_spec example_env =
     StepFailed
       \<lparr>Env = \<lparr>CLMock = \<lparr>PayloadProductionClientDelay = 0\<rparr>,
               Output =
                 [(''INFO: Executing step %d: %s'', [LogInt 1, LogString ''step'']),
                  (''INFO: Executing step %d: %s'', [LogInt 2, LogString ''step'']),
                  (''FAIL: Error executing step %d: %v'',
                     [LogInt 2, LogError (ClientError ''client did not start'')])]\<rparr>,
        TestBlobTxPool = \<lparr>Transactions = None\<rparr>\<rparr>"
proof -
  let ?desc = "\<lambda>step::TestStep. ''step''"
  let ?pre = "[StepNewPayloads zero_NewPayloads]"
  let ?c0 = "Execute_context example_spec example_env"
  let ?c1 = "announceStep ?desc 0 (StepNewPayloads zero_NewPayloads) ?c0"
  let ?c2 = "announceStep ?desc (length ?pre) example_launch ?c1"
  have w: "Some example_env = Some example_env"
    by simp
  have seq: "BlobTestSequence example_spec = ?pre @ example_launch # [StepNewPayloads zero_NewPayloads]"
    by (simp add: example_spec_def)
  have "example_stepExecute (StepNewPayloads zero_NewPayloads) ?c1 = (?c1, None)"
    by (simp add: example_stepExecute_def)
  then have ok: "steps_succeed example_stepExecute ?desc 0 ?pre ?c0 ?c1"
    by (rule one_more [OF _ no_step])
  have err: "example_stepExecute example_launch ?c2
               = (?c2, Some (ClientError ''client did not start''))"
    by (simp add: example_stepExecute_def example_launch_def)
  from BlobsBaseSpec_Execute_first_error_aborts
         [where WaitForTTD = Some and t = example_env and t' = example_env
            and bs = example_spec and pre = "?pre" and step = example_launch
            and post = "[StepNewPayloads zero_NewPayloads]"
            and stepExecute = example_stepExecute and stepDescription = "?desc"
            and ctx = "?c1" and ctx' = "?c2" and err = "ClientError ''client did not start''"]
       w seq ok err
  have "BlobsBaseSpec_Execute Some example_stepExecute ?desc example_spec example_env =
          StepFailed (?c2\<lparr>Env := Fatalf (Env ?c2) ''FAIL: Error executing step %d: %v''
                                 [LogInt (int (length ?pre) + 1),
                                  LogError (ClientError ''client did not start'')]\<rparr>)"
    by blast
  then show ?thesis
    by (simp add: announceStep_def Execute_context_def example_spec_def example_env_def
          zero_BlobsBaseSpec_def Logf_def Fatalf_def)
qed

section \<open>Properties of the test table\<close>

lemma blobs_per_block: "TARGET_BLOBS_PER_BLOCK = 3" "MAX_BLOBS_PER_BLOCK = 6"
  by (simp_all add: TARGET_BLOBS_PER_BLOCK_def MAX_BLOBS_PER_BLOCK_def
        MAX_DATA_GAS_PER_BLOCK_def TARGET_DATA_GAS_PER_BLOCK_def DATA_GAS_PER_BLOB_def)

lemma GetPayloadCount_positive: "1 \<le> unat (GetPayloadCount p)"
proof (cases "PayloadCount p = 0")
  case True
  then show ?thesis by (simp add: GetPayloadCount_def)
next
  case False
  then have "unat (PayloadCount p) \<noteq> 0"
    by (simp add: unat_eq_0)
  with False show ?thesis by (simp add: GetPayloadCount_def)
qed

lemma in_modifiedPayloadSteps:
  "bs \<in> set tests \<Longrightarrow> StepSendModifiedLatestPayload s \<in> set (BlobTestSequence bs) \<Longrightarrow>
   (Name (Spec bs), s) \<in> set (modifiedPayloadSteps tests)"
  by (force simp: modifiedPayloadSteps_def)

lemma modifiedPayloadSteps_Tests:
  "modifiedPayloadSteps (Tests G L) =
     [(''NewPayloadV3 Versioned Hashes, Missing Hash (Syncing)'',
       \<lparr>ClientID = 1,
        VersionedHashes = Some \<lparr>Blobs = Some [0], HashVersions = None\<rparr>,
        ExpectedStatus = Invalid\<rparr>),
      (''NewPayloadV3 Versioned Hashes, Extra Hash (Syncing)'',
       \<lparr>ClientID = 1,
        VersionedHashes = Some \<lparr>Blobs = Some [0, 1, 2], HashVersions = None\<rparr>,
        ExpectedStatus = Invalid\<rparr>),
      (''NewPayloadV3 Versioned Hashes, Out of Order (Syncing)'',
       \<lparr>ClientID = 1,
        VersionedHashes = Some \<lparr>Blobs = Some [1, 0], HashVersions = None\<rparr>,
        ExpectedStatus = Invalid\<rparr>),
      (''NewPayloadV3 Versioned Hashes, Repeated Hash (Syncing)'',
       \<lparr>ClientID = 1,
        VersionedHashes = Some \<lparr>Blobs = Some [0, 1, 1], HashVersions = None\<rparr>,
        ExpectedStatus = Invalid\<rparr>),
      (''NewPayloadV3 Versioned Hashes, Incorrect Hash (Syncing)'',
       \<lparr>ClientID = 1,
        VersionedHashes = Some \<lparr>Blobs = Some [0, 2], HashVersions = None\<rparr>,
        ExpectedStatus = Invalid\<rparr>),
      (''NewPayloadV3 Versioned Hashes, Incorrect Version (Syncing)'',
       \<lparr>ClientID = 1,
        VersionedHashes = Some \<lparr>Blobs = Some [0, 1], HashVersions = Some [1, 2]\<rparr>,
        ExpectedStatus = Invalid\<rparr>),
      (''NewPayloadV3 Versioned Hashes, Nil Hashes (Syncing)'',
       \<lparr>ClientID = 1,
        VersionedHashes = Some \<lparr>Blobs = None, HashVersions = None\<rparr>,
        ExpectedStatus = Invalid\<rparr>),
      (''NewPayloadV3 Versioned Hashes, Empty Hashes (Syncing)'',
       \<lparr>ClientID = 1,
        VersionedHashes = Some \<lparr>Blobs = Some [], HashVersions = None\<rparr>,
        ExpectedStatus = Invalid\<rparr>),
      (''NewPayloadV3 Versioned Hashes, Non-Empty Hashes (Syncing)'',
       \<lparr>ClientID = 1,
        VersionedHashes = Some \<lparr>Blobs = Some [0, 1], HashVersions = None\<rparr>,
        ExpectedStatus = Invalid\<rparr>)]"
  by (simp add: Tests_def modifiedPayloadSteps_def zero_BlobsBaseSpec_def
        zero_VersionedHashes_def BLOB_COMMITMENT_VERSION_KZG_def)

text \<open>
  Claim C4. Every step of the table that sends a modified latest payload carries a
  versioned-hash override and expects the status Invalid. There are nine of them: the
  eight corruptions (missing, extra, out of order, repeated, incorrect hash, incorrect
  version, nil, empty) and the one that sends hashes for a payload without blobs.
\<close>

theorem Tests_modified_payloads_expect_Invalid:
  "(\<forall>bs \<in> set (Tests G L). \<forall>s.
       StepSendModifiedLatestPayload s \<in> set (BlobTestSequence bs) \<longrightarrow>
       SendModifiedLatestPayload.VersionedHashes s \<noteq> None \<and> ExpectedStatus s = Invalid)
   \<and> map (\<lambda>(name, s). (name, SendModifiedLatestPayload.VersionedHashes s, ExpectedStatus s))
         (modifiedPayloadSteps (Tests G L)) =
       [(''NewPayloadV3 Versioned Hashes, Missing Hash (Syncing)'',
           Some \<lparr>Blobs = Some [0], HashVersions = None\<rparr>, Invalid),
        (''NewPayloadV3 Versioned Hashes, Extra Hash (Syncing)'',
           Some \<lparr>Blobs = Some [0, 1, 2], HashVersions = None\<rparr>, Invalid),
        (''NewPayloadV3 Versioned Hashes, Out of Order (Syncing)'',
           Some \<lparr>Blobs = Some [1, 0], HashVersions = None\<rparr>, Invalid),
        (''NewPayloadV3 Versioned Hashes, Repeated Hash (Syncing)'',
           Some \<lparr>Blobs = Some [0, 1, 1], HashVersions = None\<rparr>, Invalid),
        (''NewPayloadV3 Versioned Hashes, Incorrect Hash (Syncing)'',
           Some \<lparr>Blobs = Some [0, 2], HashVersions = None\<rparr>, Invalid),
        (''NewPayloadV3 Versioned Hashes, Incorrect Version (Syncing)'',
           Some \<lparr>Blobs = Some [0, 1],
                 HashVersions = Some [BLOB_COMMITMENT_VERSION_KZG, BLOB_COMMITMENT_VERSION_KZG + 1]\<rparr>,
           Invalid),
        (''NewPayloadV3 Versioned Hashes, Nil Hashes (Syncing)'',
           Some \<lparr>Blobs = None, HashVersions = None\<rparr>, Invalid),
        (''NewPayloadV3 Versioned Hashes, Empty Hashes (Syncing)'',
           Some \<lparr>Blobs = Some [], HashVersions = None\<rparr>, Invalid),
        (''NewPayloadV3 Versioned Hashes, Non-Empty Hashes (Syncing)'',
           Some \<lparr>Blobs = Some [0, 1], HashVersions = None\<rparr>, Invalid)]"
proof (rule conjI)
  show "\<forall>bs \<in> set (Tests G L). \<forall>s.
       StepSendModifiedLatestPayload s \<in> set (BlobTestSequence bs) \<longrightarrow>
       SendModifiedLatestPayload.VersionedHashes s \<noteq> None \<and> ExpectedStatus s = Invalid"
  proof (intro ballI allI impI)
    fix bs s
    assume "bs \<in> set (Tests G L)"
      and "StepSendModifiedLatestPayload s \<in> set (BlobTestSequence bs)"
    then have "(Name (Spec bs), s) \<in> set (modifiedPayloadSteps (Tests G L))"
      by (rule in_modifiedPayloadSteps)
    then show "SendModifiedLatestPayload.VersionedHashes s \<noteq> None \<and> ExpectedStatus s = Invalid"
      unfolding modifiedPayloadSteps_Tests by auto
  qed
next
  show "map (\<lambda>(name, s). (name, SendModifiedLatestPayload.VersionedHashes s, ExpectedStatus s))
         (modifiedPayloadSteps (Tests G L)) =
       [(''NewPayloadV3 Versioned Hashes, Missing Hash (Syncing)'',
           Some \<lparr>Blobs = Some [0], HashVersions = None\<rparr>, Invalid),
        (''NewPayloadV3 Versioned Hashes, Extra Hash (Syncing)'',
           Some \<lparr>Blobs = Some [0, 1, 2], HashVersions = None\<rparr>, Invalid),
        (''NewPayloadV3 Versioned Hashes, Out of Order (Syncing)'',
           Some \<lparr>Blobs = Some [1, 0], HashVersions = None\<rparr>, Invalid),
        (''NewPayloadV3 Versioned Hashes, Repeated Hash (Syncing)'',
           Some \<lparr>Blobs = Some [0, 1, 1], HashVersions = None\<rparr>, Invalid),
        (''NewPayloadV3 Versioned Hashes, Incorrect Hash (Syncing)'',
           Some \<lparr>Blobs = Some [0, 2], HashVersions = None\<rparr>, Invalid),
        (''NewPayloadV3 Versioned Hashes, Incorrect Version (Syncing)'',
           Some \<lparr>Blobs = Some [0, 1],
                 HashVersions = Some [BLOB_COMMITMENT_VERSION_KZG, BLOB_COMMITMENT_VERSION_KZG + 1]\<rparr>,
           Invalid),
        (''NewPayloadV3 Versioned Hashes, Nil Hashes (Syncing)'',
           Some \<lparr>Blobs = None, HashVersions = None\<rparr>, Invalid),
        (''NewPayloadV3 Versioned Hashes, Empty Hashes (Syncing)'',
           Some \<lparr>Blobs = Some [], HashVersions = None\<rparr>, Invalid),
        (''NewPayloadV3 Versioned Hashes, Non-Empty Hashes (Syncing)'',
           Some \<lparr>Blobs = Some [0, 1], HashVersions = None\<rparr>, Invalid)]"
    unfolding modifiedPayloadSteps_Tests by (simp add: BLOB_COMMITMENT_VERSION_KZG_def)
qed

theorem Tests_modified_payloads_expect_Invalid_witness:
  "Tests example_GetMinExcessDataBlobsForDataGasPrice example_GetBlobList ! 14
     \<in> set (Tests example_GetMinExcessDataBlobsForDataGasPrice example_GetBlobList)
   \<and> StepSendModifiedLatestPayload
        \<lparr>ClientID = 1, VersionedHashes = Some \<lparr>Blobs = Some [0], HashVersions = None\<rparr>,
         ExpectedStatus = Invalid\<rparr>
       \<in> set (BlobTestSequence
                (Tests example_GetMinExcessDataBlobsForDataGasPrice example_GetBlobList ! 14))
   \<and> ExpectedStatus
        \<lparr>ClientID = 1, VersionedHashes = Some \<lparr>Blobs = Some [0], HashVersions = None\<rparr>,
         ExpectedStatus = Invalid\<rparr> = Invalid"
proof -
  let ?T = "Tests example_GetMinExcessDataBlobsForDataGasPrice example_GetBlobList"
  let ?s = "\<lparr>ClientID = 1, VersionedHashes = Some \<lparr>Blobs = Some [0], HashVersions = None\<rparr>,
             ExpectedStatus = Invalid\<rparr>"
  have "length ?T = 25"
    by (simp add: Tests_def)
  then have m1: "?T ! 14 \<in> set ?T"
    by (intro nth_mem) simp
  have m2: "StepSendModifiedLatestPayload ?s \<in> set (BlobTestSequence (?T ! 14))"
    by (simp add: Tests_def zero_BlobsBaseSpec_def zero_VersionedHashes_def)
  from Tests_modified_payloads_expect_Invalid
         [of example_GetMinExcessDataBlobsForDataGasPrice example_GetBlobList] m1 m2
  have "ExpectedStatus ?s = Invalid"
    by blast
  with m1 m2 show ?thesis by blast
qed

text \<open>
  Claim C7. The multiple-accounts ordering test case sends 5 transactions of
  \<open>MAX_BLOBS_PER_BLOCK - 1\<close> blobs from account index 0, then 5 transactions of one blob
  from account index 1, and then expects 5 payloads with \<open>MAX_BLOBS_PER_BLOCK\<close> blobs each.
\<close>

theorem Tests_multiple_accounts_full_payloads:
  "\<exists>a b p.
      Name (Spec (Tests G L ! 2)) = ''Blob Transaction Ordering, Multiple Accounts''
    \<and> BlobTestSequence (Tests G L ! 2) =
        [StepSendBlobTransactions a, StepSendBlobTransactions b, StepNewPayloads p]
    \<and> BlobTransactionSendCount a = 5 \<and> BlobsPerTransaction a = MAX_BLOBS_PER_BLOCK - 1
    \<and> AccountIndex a = 0
    \<and> BlobTransactionSendCount b = 5 \<and> BlobsPerTransaction b = 1 \<and> AccountIndex b = 1
    \<and> PayloadCount p = 5 \<and> ExpectedIncludedBlobCount p = MAX_BLOBS_PER_BLOCK
    \<and> MAX_BLOBS_PER_BLOCK = 6"
  by (simp add: Tests_def zero_BlobsBaseSpec_def zero_SendBlobTransactions_def
        zero_NewPayloads_def blobs_per_block)

text \<open>
  Claim C6. The replacement test case sends four transactions, one per send step, each
  with the default of one blob, from the same account; every send after the first has
  the replace flag set, so that all four get the same nonce; the fee caps and the tip
  caps grow strictly from one send to the next; the one next-payload step expects one
  included blob, BlobID 3, which is the blob of the fourth, highest-fee transaction.
\<close>

theorem Tests_replace_blob_transactions:
  "\<exists>s0 s1 s2 s3 p.
      Name (Spec (Tests G L ! 4)) = ''Replace Blob Transactions''
    \<and> BlobTestSequence (Tests G L ! 4) =
        [StepSendBlobTransactions s0, StepSendBlobTransactions s1,
         StepSendBlobTransactions s2, StepSendBlobTransactions s3, StepNewPayloads p]
    \<and> map BlobTransactionSendCount [s0, s1, s2, s3] = [1, 1, 1, 1]
    \<and> map GetBlobsPerTransaction [s0, s1, s2, s3] = [1, 1, 1, 1]
    \<and> map AccountIndex [s0, s1, s2, s3] = [0, 0, 0, 0]
    \<and> map ReplaceTransactions [s0, s1, s2, s3] = [False, True, True, True]
    \<and> map BlobTransactionGasFeeCap [s0, s1, s2, s3] =
        [Some 1000000000, Some 10000000000, Some 100000000000, Some 1000000000000]
    \<and> map BlobTransactionGasTipCap [s0, s1, s2, s3] =
        [Some 1000000000, Some 10000000000, Some 100000000000, Some 1000000000000]
    \<and> the (BlobTransactionGasFeeCap s0) < the (BlobTransactionGasFeeCap s1)
    \<and> the (BlobTransactionGasFeeCap s1) < the (BlobTransactionGasFeeCap s2)
    \<and> the (BlobTransactionGasFeeCap s2) < the (BlobTransactionGasFeeCap s3)
    \<and> the (BlobTransactionGasTipCap s0) < the (BlobTransactionGasTipCap s1)
    \<and> the (BlobTransactionGasTipCap s1) < the (BlobTransactionGasTipCap s2)
    \<and> the (BlobTransactionGasTipCap s2) < the (BlobTransactionGasTipCap s3)
    \<and> GetPayloadCount p = 1 \<and> ExpectedIncludedBlobCount p = 1 \<and> ExpectedBlobs p = Some [3]
    \<and> sentTransactions (BlobTestSequence (Tests G L ! 4)) (0, \<lambda>account. 0) =
        [\<lparr>sentAccount = 0, sentNonce = 0, sentBlobs = [0],
          sentGasFeeCap = Some 1000000000, sentGasTipCap = Some 1000000000,
          sentMaxDataGasCost = Some 1\<rparr>,
         \<lparr>sentAccount = 0, sentNonce = 0, sentBlobs = [1],
          sentGasFeeCap = Some 10000000000, sentGasTipCap = Some 10000000000,
          sentMaxDataGasCost = Some 1\<rparr>,
         \<lparr>sentAccount = 0, sentNonce = 0, sentBlobs = [2],
          sentGasFeeCap = Some 100000000000, sentGasTipCap = Some 100000000000,
          sentMaxDataGasCost = Some 1\<rparr>,
         \<lparr>sentAccount = 0, sentNonce = 0, sentBlobs = [3],
          sentGasFeeCap = Some 1000000000000, sentGasTipCap = Some 1000000000000,
          sentMaxDataGasCost = Some 1\<rparr>]"
  by (simp add: Tests_def zero_BlobsBaseSpec_def zero_SendBlobTransactions_def
        zero_NewPayloads_def GetBlobsPerTransaction_def GetPayloadCount_def numeral_eq_Suc)

text \<open>
  Claim C8, as stated, fails: the expected payload sequence of the capacity-rollover test
  case does not begin with a payload of \<open>MAX_BLOBS_PER_BLOCK\<close> blobs. Between the two
  submissions there is a payload that expects \<open>TARGET_BLOBS_PER_BLOCK\<close> blobs.
\<close>

theorem Tests_capacity_rollover_first_payload_counterexample:
  "expectedPayloads (BlobTestSequence
      (Tests example_GetMinExcessDataBlobsForDataGasPrice example_GetBlobList ! 0))
     = [3, 6, 6, 6, 6, 6, 6, 0, 6]
   \<and> MAX_BLOBS_PER_BLOCK = 6
   \<and> hd (expectedPayloads (BlobTestSequence
            (Tests example_GetMinExcessDataBlobsForDataGasPrice example_GetBlobList ! 0)))
       \<noteq> MAX_BLOBS_PER_BLOCK"
proof -
  have six: "replicate 6 x = [x, x, x, x, x, x]" for x :: "64 word"
    by (simp add: numeral_eq_Suc)
  show ?thesis
    by (simp add: Tests_def zero_BlobsBaseSpec_def zero_NewPayloads_def GetPayloadCount_def
          blobs_per_block DATA_GAS_COST_INCREMENT_EXCEED_BLOBS_def
          example_GetMinExcessDataBlobsForDataGasPrice_def six)
qed

text \<open>
  Claim C8, amended. With \<open>X\<close> the number \<open>DATA_GAS_COST_INCREMENT_EXCEED_BLOBS\<close>, the
  capacity-rollover test case first sends \<open>TARGET_BLOBS_PER_BLOCK\<close> transactions at the
  minimal data gas cost 1 and expects one payload with \<open>TARGET_BLOBS_PER_BLOCK\<close> blobs. It
  then sends \<open>X / (MAX - TARGET) + 1\<close> transactions of \<open>MAX_BLOBS_PER_BLOCK\<close> blobs each
  at the same cost, one more than the full payloads it expects next. From there the
  expected payloads are: one or more with \<open>MAX_BLOBS_PER_BLOCK\<close> blobs, exactly one with
  zero blobs, and one with \<open>MAX_BLOBS_PER_BLOCK\<close> blobs.
\<close>

theorem Tests_capacity_rollover:
  "\<exists>s1 p1 s2 p2 p3 p4.
      Name (Spec (Tests G L ! 0)) = ''Blob Transactions On Block 1, Cancun Genesis''
    \<and> BlobTestSequence (Tests G L ! 0) =
        [StepSendBlobTransactions s1, StepNewPayloads p1, StepSendBlobTransactions s2,
         StepNewPayloads p2, StepNewPayloads p3, StepNewPayloads p4]
    \<and> BlobTransactionSendCount s1 = TARGET_BLOBS_PER_BLOCK
    \<and> BlobTransactionMaxDataGasCost s1 = Some 1 \<and> uint MIN_DATA_GASPRICE = 1
    \<and> GetPayloadCount p1 = 1 \<and> ExpectedIncludedBlobCount p1 = TARGET_BLOBS_PER_BLOCK
    \<and> BlobTransactionSendCount s2 =
        DATA_GAS_COST_INCREMENT_EXCEED_BLOBS G div (MAX_BLOBS_PER_BLOCK - TARGET_BLOBS_PER_BLOCK) + 1
    \<and> BlobTransactionSendCount s2 = PayloadCount p2 + 1
    \<and> BlobsPerTransaction s2 = MAX_BLOBS_PER_BLOCK
    \<and> BlobTransactionMaxDataGasCost s2 = Some 1
    \<and> 1 \<le> unat (GetPayloadCount p2) \<and> ExpectedIncludedBlobCount p2 = MAX_BLOBS_PER_BLOCK
    \<and> GetPayloadCount p3 = 1 \<and> ExpectedIncludedBlobCount p3 = 0
    \<and> GetPayloadCount p4 = 1 \<and> ExpectedIncludedBlobCount p4 = MAX_BLOBS_PER_BLOCK
    \<and> expectedPayloads (BlobTestSequence (Tests G L ! 0)) =
        [TARGET_BLOBS_PER_BLOCK] @ replicate (unat (GetPayloadCount p2)) MAX_BLOBS_PER_BLOCK
          @ [0] @ [MAX_BLOBS_PER_BLOCK]"
proof -
  let ?X = "DATA_GAS_COST_INCREMENT_EXCEED_BLOBS G"
  let ?s1 = "zero_SendBlobTransactions
               \<lparr>BlobTransactionSendCount := TARGET_BLOBS_PER_BLOCK,
                BlobTransactionMaxDataGasCost := Some 1\<rparr>"
  let ?p1 = "zero_NewPayloads
               \<lparr>ExpectedIncludedBlobCount := TARGET_BLOBS_PER_BLOCK,
                ExpectedBlobs := L 0 TARGET_BLOBS_PER_BLOCK\<rparr>"
  let ?s2 = "zero_SendBlobTransactions
               \<lparr>BlobTransactionSendCount :=
                  ?X div (MAX_BLOBS_PER_BLOCK - TARGET_BLOBS_PER_BLOCK) + 1,
                BlobsPerTransaction := MAX_BLOBS_PER_BLOCK,
                BlobTransactionMaxDataGasCost := Some 1\<rparr>"
  let ?p2 = "zero_NewPayloads
               \<lparr>PayloadCount := ?X div (MAX_BLOBS_PER_BLOCK - TARGET_BLOBS_PER_BLOCK),
                ExpectedIncludedBlobCount := MAX_BLOBS_PER_BLOCK\<rparr>"
  let ?p3 = "zero_NewPayloads\<lparr>ExpectedIncludedBlobCount := 0\<rparr>"
  let ?p4 = "zero_NewPayloads\<lparr>ExpectedIncludedBlobCount := MAX_BLOBS_PER_BLOCK\<rparr>"
  have name: "Name (Spec (Tests G L ! 0)) = ''Blob Transactions On Block 1, Cancun Genesis''"
    by (simp add: Tests_def zero_BlobsBaseSpec_def)
  have steps: "BlobTestSequence (Tests G L ! 0) =
        [StepSendBlobTransactions ?s1, StepNewPayloads ?p1, StepSendBlobTransactions ?s2,
         StepNewPayloads ?p2, StepNewPayloads ?p3, StepNewPayloads ?p4]"
    by (simp add: Tests_def zero_BlobsBaseSpec_def)
  have one: "GetPayloadCount ?p1 = 1" "GetPayloadCount ?p3 = 1" "GetPayloadCount ?p4 = 1"
    by (simp_all add: GetPayloadCount_def zero_NewPayloads_def)
  have fields: "BlobTransactionSendCount ?s1 = TARGET_BLOBS_PER_BLOCK"
    "BlobTransactionMaxDataGasCost ?s1 = Some 1" "uint MIN_DATA_GASPRICE = 1"
    "ExpectedIncludedBlobCount ?p1 = TARGET_BLOBS_PER_BLOCK"
    "BlobTransactionSendCount ?s2 =
       ?X div (MAX_BLOBS_PER_BLOCK - TARGET_BLOBS_PER_BLOCK) + 1"
    "BlobTransactionSendCount ?s2 = PayloadCount ?p2 + 1"
    "BlobsPerTransaction ?s2 = MAX_BLOBS_PER_BLOCK"
    "BlobTransactionMaxDataGasCost ?s2 = Some 1"
    "ExpectedIncludedBlobCount ?p2 = MAX_BLOBS_PER_BLOCK"
    "ExpectedIncludedBlobCount ?p3 = 0"
    "ExpectedIncludedBlobCount ?p4 = MAX_BLOBS_PER_BLOCK"
    by (simp_all add: MIN_DATA_GASPRICE_def)
  have seq: "expectedPayloads (BlobTestSequence (Tests G L ! 0)) =
        [TARGET_BLOBS_PER_BLOCK] @ replicate (unat (GetPayloadCount ?p2)) MAX_BLOBS_PER_BLOCK
          @ [0] @ [MAX_BLOBS_PER_BLOCK]"
    unfolding steps by (simp add: one)
  from name steps one fields seq GetPayloadCount_positive [of ?p2]
  show ?thesis by blast
qed

end
